theory Spec2Isabelle
  imports Main "HOL-Library.Word"
begin

section \<open>Strings, bytes and the standard-library operations the core uses\<close>

text \<open>
  A \<^verbatim>\<open>std::string\<close> is a list of 8-bit bytes, so it is modelled by \<^typ>\<open>string\<close>.
  The quote and backslash bytes are written by their code, as are control bytes.
\<close>

abbreviation dquote :: char where
  "dquote \<equiv> CHR 0x22"

abbreviation backslash :: char where
  "backslash \<equiv> CHR 0x5C"

text \<open>
  What the calls of the source can raise: \<^verbatim>\<open>std::invalid_argument\<close> and
  \<^verbatim>\<open>std::out_of_range\<close> (from \<^verbatim>\<open>std::stoi\<close> and \<^verbatim>\<open>substr\<close>), and a read through
  \<^verbatim>\<open>operator[]\<close> beyond the terminating position, which C++ leaves undefined.
  Nothing in the source catches an exception, so a raise ends the process.
\<close>

datatype error = InvalidArgument | OutOfRange | UndefinedBehaviour

text \<open>
  A plain \<^verbatim>\<open>char\<close> compared with an \<^verbatim>\<open>int\<close> constant is promoted to \<^verbatim>\<open>int\<close>;
  \<open>char_to_int\<close> is that promotion where \<^verbatim>\<open>char\<close> is signed, and
  \<open>uchar_to_int\<close> where it is unsigned (also \<^verbatim>\<open>static_cast<unsigned char>\<close>).
\<close>

definition char_to_int :: "char \<Rightarrow> int" where
  "char_to_int c = sint (of_char c :: 8 word)"

definition uchar_to_int :: "char \<Rightarrow> int" where
  "uchar_to_int c = of_char c"

text \<open>\<^verbatim>\<open>sprintf(hex, "%04X", n)\<close>: upper-case hexadecimal, padded with zeros to four places.\<close>

definition hex_digit :: "nat \<Rightarrow> char" where
  "hex_digit d = ''0123456789ABCDEF'' ! (d mod 16)"

fun hex_digits :: "nat \<Rightarrow> string" where
  "hex_digits n = (if n < 16 then [hex_digit n] else hex_digits (n div 16) @ [hex_digit (n mod 16)])"

declare hex_digits.simps [simp del]

definition sprintf_04X :: "nat \<Rightarrow> string" where
  "sprintf_04X n = (let ds = hex_digits n in replicate (4 - length ds) (CHR ''0'') @ ds)"

text \<open>\<^verbatim>\<open>std::to_string\<close> of a signed integer: decimal, with a minus sign when negative.\<close>

definition dec_digit :: "nat \<Rightarrow> char" where
  "dec_digit d = ''0123456789'' ! (d mod 10)"

fun dec_digits :: "nat \<Rightarrow> string" where
  "dec_digits n = (if n < 10 then [dec_digit n] else dec_digits (n div 10) @ [dec_digit (n mod 10)])"

declare dec_digits.simps [simp del]

definition to_string :: "int \<Rightarrow> string" where
  "to_string i = (if i < 0 then CHR ''-'' # dec_digits (nat (- i)) else dec_digits (nat i))"

text \<open>
  \<^verbatim>\<open>std::string::find\<close>: the least position at or after \<open>pos\<close> where the character
  (or the whole pattern) stands; \<^verbatim>\<open>npos\<close> is \<open>None\<close>.
\<close>

fun first_index :: "char \<Rightarrow> string \<Rightarrow> nat option" where
  "first_index c [] = None"
| "first_index c (x # xs) = (if x = c then Some 0 else map_option Suc (first_index c xs))"

definition find_char :: "string \<Rightarrow> char \<Rightarrow> nat \<Rightarrow> nat option" where
  "find_char s c pos = map_option (\<lambda>i. pos + i) (first_index c (drop pos s))"

fun first_occurrence :: "string \<Rightarrow> string \<Rightarrow> nat option" where
  "first_occurrence pat [] = (if pat = [] then Some 0 else None)"
| "first_occurrence pat (x # xs) =
     (if take (length pat) (x # xs) = pat then Some 0
      else map_option Suc (first_occurrence pat xs))"

definition find_str :: "string \<Rightarrow> string \<Rightarrow> nat \<Rightarrow> nat option" where
  "find_str s pat pos =
     (if length s < pos then None
      else map_option (\<lambda>i. pos + i) (first_occurrence pat (drop pos s)))"

text \<open>
  \<^verbatim>\<open>s[pos]\<close> on a \<^verbatim>\<open>const std::string\<close>: the byte at \<open>pos\<close>, the null byte at
  \<open>pos = size()\<close>, undefined beyond. \<^verbatim>\<open>s.substr(pos, n)\<close> raises
  \<^verbatim>\<open>std::out_of_range\<close> when \<open>pos > size()\<close>. Subtraction of \<^verbatim>\<open>size_t\<close> values
  wraps around at 64 bits.
\<close>

definition char_at :: "string \<Rightarrow> nat \<Rightarrow> error + char" where
  "char_at s pos =
     (if pos < length s then Inr (s ! pos)
      else if pos = length s then Inr (CHR 0x00)
      else Inl UndefinedBehaviour)"

definition substr :: "string \<Rightarrow> nat \<Rightarrow> nat \<Rightarrow> error + string" where
  "substr s pos n = (if length s < pos then Inl OutOfRange else Inr (take n (drop pos s)))"

definition size_sub :: "nat \<Rightarrow> nat \<Rightarrow> nat" where
  "size_sub a b = (if b \<le> a then a - b else 2 ^ 64 + a - b)"

section \<open>Message encoder\<close>

text \<open>
  \<^verbatim>\<open>LlmStdioCore::escapeJsonString\<close>. \<open>escape_char\<close> is the body of the
  \<^verbatim>\<open>switch\<close>: what one byte appends to \<^verbatim>\<open>escaped\<close>; the \<^verbatim>\<open>for\<close> loop runs
  over the input from left to right.
\<close>

definition escape_char :: "char \<Rightarrow> string" where
  "escape_char c =
     (if c = dquote then [backslash, dquote]
      else if c = backslash then [backslash, backslash]
      else if c = CHR 0x08 then [backslash, CHR ''b'']
      else if c = CHR 0x0C then [backslash, CHR ''f'']
      else if c = CHR 0x0A then [backslash, CHR ''n'']
      else if c = CHR 0x0D then [backslash, CHR ''r'']
      else if c = CHR 0x09 then [backslash, CHR ''t'']
      else if char_to_int c < 32 \<or> char_to_int c > 127
        then [backslash, CHR ''u''] @ sprintf_04X (nat (uchar_to_int c))
      else [c])"

definition escapeJsonString :: "string \<Rightarrow> string" where
  "escapeJsonString input = foldl (\<lambda>escaped c. escaped @ escape_char c) [] input"

text \<open>
  \<^verbatim>\<open>LlmStdioCore::createStderrMessage\<close>. The function reads the system clock; the
  reading, in milliseconds since the epoch, is the first argument here.
\<close>

definition createStderrMessage ::
  "int \<Rightarrow> string \<Rightarrow> string \<Rightarrow> string \<Rightarrow> string \<Rightarrow> string \<Rightarrow> string" where
  \<open>createStderrMessage now_ms message_type status message response_text data =
     (let response = ''{"type":"'' @ escapeJsonString message_type @ ''"'';
          response = (if status \<noteq> [] then response @ '',"status":"'' @ escapeJsonString status @ ''"''
                      else response);
          response = (if message \<noteq> [] then response @ '',"message":"'' @ escapeJsonString message @ ''"''
                      else response);
          response = (if response_text \<noteq> []
                      then response @ '',"response":"'' @ escapeJsonString response_text @ ''"''
                      else response);
          response = (if data \<noteq> [] then response @ '',"data":'' @ data else response);
          response = response @ '',"timestamp":'' @ to_string now_ms;
          response = response @ ''}''
      in response)\<close>

section \<open>Request decoder\<close>

text \<open>The two scanning loops of \<^verbatim>\<open>extractValue\<close> that advance an index.\<close>

function skip_blanks :: "string \<Rightarrow> nat \<Rightarrow> nat" where
  "skip_blanks s start_pos =
     (if start_pos < length s \<and> (s ! start_pos = CHR '' '' \<or> s ! start_pos = CHR 0x09)
      then skip_blanks s (Suc start_pos) else start_pos)"
  by pat_completeness auto
termination
  by (relation "measure (\<lambda>(s, p). length s - p)") auto

function scan_bare :: "string \<Rightarrow> nat \<Rightarrow> nat" where
  "scan_bare s end_pos =
     (if end_pos < length s \<and> s ! end_pos \<noteq> CHR '','' \<and> s ! end_pos \<noteq> CHR ''}''
         \<and> s ! end_pos \<noteq> CHR '']'' \<and> s ! end_pos \<noteq> CHR '' ''
      then scan_bare s (Suc end_pos) else end_pos)"
  by pat_completeness auto
termination
  by (relation "measure (\<lambda>(s, p). length s - p)") auto

declare skip_blanks.simps [simp del] scan_bare.simps [simp del]

text \<open>
  The search for the closing quote: \<open>end_pos\<close> is the result of the previous
  \<^verbatim>\<open>find\<close>; while it is a position whose predecessor holds a backslash, the search
  goes on behind it.
\<close>

function closing_quote :: "string \<Rightarrow> nat option \<Rightarrow> error + nat option" where
  "closing_quote s end_pos =
     (case end_pos of
        None \<Rightarrow> Inr None
      | Some e \<Rightarrow>
          (case char_at s (size_sub e 1) of
             Inl err \<Rightarrow> Inl err
           | Inr ch \<Rightarrow>
               if ch = backslash then closing_quote s (find_char s dquote (e + 1))
               else Inr (Some e)))"
  by pat_completeness auto
termination
proof -
  have less: "first_index c xs = Some i \<Longrightarrow> i < length xs" for c xs i
    by (induction xs arbitrary: i) (auto split: if_splits)
  have bounds: "find_char s c pos = Some i \<Longrightarrow> pos \<le> i \<and> i < length s" for s c pos i
    by (auto simp: find_char_def dest!: less)
  show ?thesis
    apply (relation "measure (\<lambda>(s, p). case p of None \<Rightarrow> 0 | Some e \<Rightarrow> Suc (length s - e))")
     apply simp
    apply (auto split: option.splits dest!: bounds)
    done
qed

declare closing_quote.simps [simp del]

text \<open>
  \<^verbatim>\<open>extractValue\<close>. \<open>bare_value\<close> is its last part (\<^verbatim>\<open>// other values\<close>), which
  the string branch also falls into when no closing quote is found, with
  \<open>start_pos\<close> already moved behind the opening quote.
\<close>

definition bare_value :: "string \<Rightarrow> nat \<Rightarrow> error + string" where
  "bare_value json_str start_pos =
     (let end_pos = scan_bare json_str start_pos
      in substr json_str start_pos (size_sub end_pos start_pos))"

definition extractValue :: "string \<Rightarrow> string \<Rightarrow> error + string" where
  "extractValue json_str key =
     (case find_str json_str ([dquote] @ key @ [dquote]) 0 of
        None \<Rightarrow> Inr []
      | Some key_pos \<Rightarrow>
          (case find_char json_str (CHR '':'') key_pos of
             None \<Rightarrow> Inr []
           | Some colon_pos \<Rightarrow>
               (let start_pos = skip_blanks json_str (colon_pos + 1) in
                case char_at json_str start_pos of
                  Inl err \<Rightarrow> Inl err
                | Inr ch \<Rightarrow>
                    if ch = dquote then
                      (let start_pos = start_pos + 1 in
                       case closing_quote json_str (find_char json_str dquote start_pos) of
                         Inl err \<Rightarrow> Inl err
                       | Inr (Some end_pos) \<Rightarrow>
                           substr json_str start_pos (size_sub end_pos start_pos)
                       | Inr None \<Rightarrow> bare_value json_str start_pos)
                    else bare_value json_str start_pos)))"

text \<open>
  \<^verbatim>\<open>LlmStdioCore::Request\<close> and \<^verbatim>\<open>LlmStdioCore::parseRequest\<close>. The fields
  \<^verbatim>\<open>id\<close> and \<^verbatim>\<open>method\<close> are named \<open>req_id\<close> and \<open>req_method\<close>. A
  default-constructed request has empty strings and an empty parameter map.
\<close>

record Request =
  req_id :: string
  req_method :: string
  content :: string
  params :: "string \<rightharpoonup> string"

definition parseRequest :: "string \<Rightarrow> error + Request" where
  "parseRequest request_str =
     (case extractValue request_str ''type'' of
        Inl err \<Rightarrow> Inl err
      | Inr type \<Rightarrow>
          (case extractValue request_str ''id'' of
             Inl err \<Rightarrow> Inl err
           | Inr ident \<Rightarrow>
               (let req = \<lparr>req_id = ident, req_method = type, content = [], params = Map.empty\<rparr> in
                if type = ''chat'' then
                  (case extractValue request_str ''prompt'' of
                     Inl err \<Rightarrow> Inl err
                   | Inr prompt \<Rightarrow>
                       (case extractValue request_str ''max_new_tokens'' of
                          Inl err \<Rightarrow> Inl err
                        | Inr max_new_tokens \<Rightarrow>
                            Inr (req\<lparr>content := prompt,
                                     params := (params req)(''max_new_tokens'' \<mapsto> max_new_tokens)\<rparr>)))
                else if type = ''system_prompt'' then
                  (case extractValue request_str ''content'' of
                     Inl err \<Rightarrow> Inl err
                   | Inr c \<Rightarrow> Inr (req\<lparr>content := c\<rparr>))
                else Inr req)))"

section \<open>Generation-length override\<close>

text \<open>
  \<^verbatim>\<open>std::isdigit\<close> and \<^verbatim>\<open>std::isspace\<close> in the C locale, and \<^verbatim>\<open>std::stoi\<close> as the
  C++ standard gives it (through \<^verbatim>\<open>strtol\<close>, base 10): leading white space is skipped,
  one sign is read, then the longest run of decimal digits; no digit raises
  \<^verbatim>\<open>std::invalid_argument\<close>, a value outside the 32-bit \<^verbatim>\<open>int\<close> raises
  \<^verbatim>\<open>std::out_of_range\<close>; what follows the digits is ignored.
\<close>

definition is_digit :: "char \<Rightarrow> bool" where
  "is_digit c = (48 \<le> (of_char c :: nat) \<and> (of_char c :: nat) \<le> 57)"

definition is_space :: "char \<Rightarrow> bool" where
  "is_space c = (c = CHR '' '' \<or> (9 \<le> (of_char c :: nat) \<and> (of_char c :: nat) \<le> 13))"

definition digits_value :: "string \<Rightarrow> int" where
  "digits_value ds = foldl (\<lambda>acc c. 10 * acc + (of_char c - 48)) 0 ds"

definition stoi :: "string \<Rightarrow> error + int" where
  "stoi str =
     (let s1 = dropWhile is_space str;
          negative = (s1 \<noteq> [] \<and> hd s1 = CHR ''-'');
          s2 = (if s1 \<noteq> [] \<and> (hd s1 = CHR ''-'' \<or> hd s1 = CHR ''+'') then tl s1 else s1);
          ds = takeWhile is_digit s2;
          v = (if negative then - digits_value ds else digits_value ds)
      in if ds = [] then Inl InvalidArgument
         else if v < - (2 ^ 31) \<or> 2 ^ 31 - 1 < v then Inl OutOfRange
         else Inr v)"

text \<open>
  The first part of \<^verbatim>\<open>LlmStdioCore::handleChatRequest\<close>: the value of
  \<^verbatim>\<open>max_new_tokens\<close> that is passed to the engine, or the exception of
  \<^verbatim>\<open>std::stoi\<close>. The \<^verbatim>\<open>for\<close> loop sets \<^verbatim>\<open>valid\<close> to false at the first byte from
  position \<open>i\<close> on that is not a digit.
\<close>

definition max_new_tokens_of :: "Request \<Rightarrow> error + int" where
  "max_new_tokens_of req =
     (case params req ''max_new_tokens'' of
        None \<Rightarrow> Inr (- 1)
      | Some str \<Rightarrow>
          if str = [] then Inr (- 1)
          else
            (let i = (if str ! 0 = CHR ''+'' \<or> str ! 0 = CHR ''-'' then 1 else 0);
                 valid = list_all is_digit (drop i str)
             in if valid \<and> str \<noteq> [] then stoi str else Inr (- 1)))"

section \<open>Engine, streams and session state\<close>

text \<open>
  The engine behind \<^verbatim>\<open>m_llm\<close> is not part of the repository. It is a parameter: what
  a call does may depend on every call made on the engine before (\<open>llm_call list\<close>)
  and on the arguments. \<^verbatim>\<open>response\<close> yields the calls the engine makes on the buffer
  of the output stream it is handed, in order: \<^verbatim>\<open>sputn\<close> for a run of bytes (every
  \<^verbatim>\<open>operator<<\<close> of a string and every \<^verbatim>\<open>write\<close>) and \<^verbatim>\<open>sputc\<close> for a single
  byte. A flush of that stream reaches \<^verbatim>\<open>TeeBuffer::sync\<close>, which is not overridden and
  does nothing, so it is not recorded. \<^verbatim>\<open>getContext\<close> yields \<^verbatim>\<open>prompt_len\<close> and
  \<^verbatim>\<open>gen_seq_len\<close>. The third field is the system clock: its \<open>k\<close>-th reading in
  milliseconds since the epoch.
\<close>

type_synonym ChatMessage = "string \<times> string"
type_synonym ChatMessages = "ChatMessage list"

datatype sink_op = Sputn string | Sputc char

datatype llm_call = Response ChatMessages int | Reset | GetContext

record env =
  response :: "llm_call list \<Rightarrow> ChatMessages \<Rightarrow> int \<Rightarrow> sink_op list"
  getContext :: "llm_call list \<Rightarrow> int \<times> int"
  system_clock_now :: "nat \<Rightarrow> int"

text \<open>
  What is done to \<^verbatim>\<open>std::cout\<close> and \<^verbatim>\<open>std::cerr\<close>, one element per operation:
  \<^verbatim>\<open>stream << s\<close>, \<^verbatim>\<open>stream << std::endl\<close>, \<^verbatim>\<open>stream.write(s, n)\<close> and
  \<^verbatim>\<open>stream.flush()\<close>. \<open>stream_bytes\<close> is the byte sequence that reaches the channel.
\<close>

datatype stream_op = Insert string | Endl | WriteBytes string | Flush

fun op_bytes :: "stream_op \<Rightarrow> string" where
  "op_bytes (Insert s) = s"
| "op_bytes Endl = [CHR 0x0A]"
| "op_bytes (WriteBytes s) = s"
| "op_bytes Flush = []"

definition stream_bytes :: "stream_op list \<Rightarrow> string" where
  "stream_bytes ops = concat (map op_bytes ops)"

text \<open>
  The members of \<^verbatim>\<open>LlmStdioCore\<close> (\<open>m_llm\<close> holds the calls made on the engine so
  far), the two output streams of the process and the number of clock readings taken.
\<close>

record world =
  m_running :: bool
  m_processing :: bool
  m_system_prompt :: string
  m_chat_history :: ChatMessages
  m_llm :: "llm_call list"
  std_cout :: "stream_op list"
  std_cerr :: "stream_op list"
  clock_reads :: nat

text \<open>The constructor \<^verbatim>\<open>LlmStdioCore::LlmStdioCore\<close>, in a process that has written nothing.\<close>

definition LlmStdioCore_init :: world where
  "LlmStdioCore_init =
     \<lparr>m_running = False, m_processing = False, m_system_prompt = [], m_chat_history = [],
      m_llm = [], std_cout = [], std_cerr = [], clock_reads = 0\<rparr>"

text \<open>
  \<^verbatim>\<open>std::cerr << createStderrMessage(...) << std::endl\<close>, which reads the clock once, and
  \<^verbatim>\<open>std::cerr.flush()\<close>.
\<close>

definition cerr_message :: "env \<Rightarrow> string \<Rightarrow> string \<Rightarrow> string \<Rightarrow> string \<Rightarrow> world \<Rightarrow> world" where
  "cerr_message E message_type status message response_text w =
     w\<lparr>std_cerr := std_cerr w @
          [Insert (createStderrMessage (system_clock_now E (clock_reads w))
                     message_type status message response_text []), Endl],
       clock_reads := Suc (clock_reads w)\<rparr>"

definition cerr_flush :: "world \<Rightarrow> world" where
  "cerr_flush w = w\<lparr>std_cerr := std_cerr w @ [Flush]\<rparr>"

section \<open>Streaming output adapter\<close>

text \<open>
  \<^verbatim>\<open>LlmStdioCore::StreamingBuffer\<close>: \<open>out\<close> is the stream the reference member
  refers to. \<^verbatim>\<open>EOF\<close> is \<open>-1\<close>; \<^verbatim>\<open>static_cast<char>(c)\<close> keeps the low eight bits.
\<close>

record StreamingBuffer =
  out :: "stream_op list"
  started :: bool

abbreviation EOF :: int where
  "EOF \<equiv> - 1"

definition startStream :: "StreamingBuffer \<Rightarrow> StreamingBuffer" where
  "startStream sb =
     (if \<not> started sb
      then sb\<lparr>out := out sb @ [Insert ''[LLM_STREAM_START]'', Endl, Flush], started := True\<rparr>
      else sb)"

definition endStream :: "StreamingBuffer \<Rightarrow> StreamingBuffer" where
  "endStream sb =
     (if started sb
      then sb\<lparr>out := out sb @ [Insert ''[LLM_STREAM_END]'', Endl, Flush], started := False\<rparr>
      else sb)"

definition StreamingBuffer_overflow :: "int \<Rightarrow> StreamingBuffer \<Rightarrow> StreamingBuffer" where
  "StreamingBuffer_overflow c sb =
     (if c \<noteq> EOF
      then (let sb1 = startStream sb in sb1\<lparr>out := out sb1 @ [WriteBytes [char_of c], Flush]\<rparr>)
      else sb)"

definition StreamingBuffer_xsputn :: "string \<Rightarrow> StreamingBuffer \<Rightarrow> StreamingBuffer" where
  "StreamingBuffer_xsputn s sb =
     (if 0 < length s
      then (let sb1 = startStream sb in sb1\<lparr>out := out sb1 @ [WriteBytes s, Flush]\<rparr>)
      else sb)"

text \<open>\<^verbatim>\<open>CaptureBuffer\<close>: the state is the string \<^verbatim>\<open>output_\<close> refers to.\<close>

definition CaptureBuffer_xsputn :: "string \<Rightarrow> string \<Rightarrow> string" where
  "CaptureBuffer_xsputn s output = output @ s"

definition CaptureBuffer_overflow :: "int \<Rightarrow> string \<Rightarrow> string" where
  "CaptureBuffer_overflow c output = (if c \<noteq> EOF then output @ [char_of c] else output)"

text \<open>
  \<^verbatim>\<open>TeeBuffer\<close> of \<^verbatim>\<open>handleChatRequest\<close>: \<open>sb1\<close> is the streaming buffer and
  \<open>sb2\<close> the capture buffer. None of the three buffers has a put area, so
  \<^verbatim>\<open>sputc(ch)\<close> on one of them is \<^verbatim>\<open>overflow(to_int_type(ch))\<close> and \<^verbatim>\<open>sputn\<close> is
  \<^verbatim>\<open>xsputn\<close>; \<^verbatim>\<open>to_int_type\<close> reads the byte as unsigned.
\<close>

definition to_int_type :: "char \<Rightarrow> int" where
  "to_int_type ch = uchar_to_int ch"

definition TeeBuffer_overflow :: "int \<Rightarrow> StreamingBuffer \<times> string \<Rightarrow> StreamingBuffer \<times> string" where
  "TeeBuffer_overflow c tee =
     (if c \<noteq> EOF
      then (StreamingBuffer_overflow (to_int_type (char_of c)) (fst tee),
            CaptureBuffer_overflow (to_int_type (char_of c)) (snd tee))
      else tee)"

definition TeeBuffer_xsputn :: "string \<Rightarrow> StreamingBuffer \<times> string \<Rightarrow> StreamingBuffer \<times> string" where
  "TeeBuffer_xsputn s tee = (StreamingBuffer_xsputn s (fst tee), CaptureBuffer_xsputn s (snd tee))"

fun tee_stream_put :: "sink_op \<Rightarrow> StreamingBuffer \<times> string \<Rightarrow> StreamingBuffer \<times> string" where
  "tee_stream_put (Sputn s) tee = TeeBuffer_xsputn s tee"
| "tee_stream_put (Sputc ch) tee = TeeBuffer_overflow (to_int_type ch) tee"

section \<open>Request handlers\<close>

text \<open>
  The message texts of the handlers are Chinese string literals; here are their UTF-8
  bytes as the source file holds them. In order they read: system prompt set; system
  prompt content is empty; model reset, history cleared, system prompt kept; streaming
  output finished; full response generated; unknown request type (followed by a colon
  and a space).
\<close>

definition msg_system_prompt_set :: string where
  "msg_system_prompt_set =
     [CHR 0xE7, CHR 0xB3, CHR 0xBB, CHR 0xE7, CHR 0xBB, CHR 0x9F, CHR 0xE6, CHR 0x8F, CHR 0x90,
      CHR 0xE7, CHR 0xA4, CHR 0xBA, CHR 0xE8, CHR 0xAF, CHR 0x8D, CHR 0xE8, CHR 0xAE, CHR 0xBE,
      CHR 0xE7, CHR 0xBD, CHR 0xAE, CHR 0xE6, CHR 0x88, CHR 0x90, CHR 0xE5, CHR 0x8A, CHR 0x9F]"

definition msg_system_prompt_empty :: string where
  "msg_system_prompt_empty =
     [CHR 0xE7, CHR 0xB3, CHR 0xBB, CHR 0xE7, CHR 0xBB, CHR 0x9F, CHR 0xE6, CHR 0x8F, CHR 0x90,
      CHR 0xE7, CHR 0xA4, CHR 0xBA, CHR 0xE8, CHR 0xAF, CHR 0x8D, CHR 0xE5, CHR 0x86, CHR 0x85,
      CHR 0xE5, CHR 0xAE, CHR 0xB9, CHR 0xE4, CHR 0xB8, CHR 0xBA, CHR 0xE7, CHR 0xA9, CHR 0xBA]"

definition msg_reset_done :: string where
  "msg_reset_done =
     [CHR 0xE6, CHR 0xA8, CHR 0xA1, CHR 0xE5, CHR 0x9E, CHR 0x8B, CHR 0xE5, CHR 0xB7, CHR 0xB2,
      CHR 0xE9, CHR 0x87, CHR 0x8D, CHR 0xE7, CHR 0xBD, CHR 0xAE, CHR 0xEF, CHR 0xBC, CHR 0x8C,
      CHR 0xE5, CHR 0xAF, CHR 0xB9, CHR 0xE8, CHR 0xAF, CHR 0x9D, CHR 0xE5, CHR 0x8E, CHR 0x86,
      CHR 0xE5, CHR 0x8F, CHR 0xB2, CHR 0xE5, CHR 0xB7, CHR 0xB2, CHR 0xE6, CHR 0xB8, CHR 0x85,
      CHR 0xE7, CHR 0xA9, CHR 0xBA, CHR 0xEF, CHR 0xBC, CHR 0x8C, CHR 0xE7, CHR 0xB3, CHR 0xBB,
      CHR 0xE7, CHR 0xBB, CHR 0x9F, CHR 0xE6, CHR 0x8F, CHR 0x90, CHR 0xE7, CHR 0xA4, CHR 0xBA,
      CHR 0xE8, CHR 0xAF, CHR 0x8D, CHR 0xE4, CHR 0xBF, CHR 0x9D, CHR 0xE7, CHR 0x95, CHR 0x99]"

definition msg_stream_done :: string where
  "msg_stream_done =
     [CHR 0xE6, CHR 0xB5, CHR 0x81, CHR 0xE5, CHR 0xBC, CHR 0x8F, CHR 0xE8, CHR 0xBE, CHR 0x93,
      CHR 0xE5, CHR 0x87, CHR 0xBA, CHR 0xE5, CHR 0xAE, CHR 0x8C, CHR 0xE6, CHR 0x88, CHR 0x90]"

definition msg_response_done :: string where
  "msg_response_done =
     [CHR 0xE5, CHR 0xAE, CHR 0x8C, CHR 0xE6, CHR 0x95, CHR 0xB4, CHR 0xE5, CHR 0x93, CHR 0x8D,
      CHR 0xE5, CHR 0xBA, CHR 0x94, CHR 0xE5, CHR 0xB7, CHR 0xB2, CHR 0xE7, CHR 0x94, CHR 0x9F,
      CHR 0xE6, CHR 0x88, CHR 0x90]"

definition msg_unknown_type :: string where
  "msg_unknown_type =
     [CHR 0xE6, CHR 0x9C, CHR 0xAA, CHR 0xE7, CHR 0x9F, CHR 0xA5, CHR 0xE8, CHR 0xAF, CHR 0xB7,
      CHR 0xE6, CHR 0xB1, CHR 0x82, CHR 0xE7, CHR 0xB1, CHR 0xBB, CHR 0xE5, CHR 0x9E, CHR 0x8B,
      CHR 0x3A, CHR 0x20]"

text \<open>\<^verbatim>\<open>LlmStdioCore::handleSystemPromptRequest\<close>.\<close>

definition handleSystemPromptRequest :: "env \<Rightarrow> Request \<Rightarrow> world \<Rightarrow> world" where
  "handleSystemPromptRequest E req w =
     (if content req \<noteq> []
      then cerr_flush (cerr_message E ''message'' ''success'' msg_system_prompt_set []
             (w\<lparr>m_system_prompt := content req\<rparr>))
      else cerr_flush (cerr_message E ''error'' ''error'' msg_system_prompt_empty [] w))"

text \<open>\<^verbatim>\<open>LlmStdioCore::handleResetRequest\<close>.\<close>

definition handleResetRequest :: "env \<Rightarrow> Request \<Rightarrow> world \<Rightarrow> world" where
  "handleResetRequest E req w =
     (let w1 = w\<lparr>m_chat_history := []\<rparr>;
          w2 = w1\<lparr>m_llm := m_llm w1 @ [Reset]\<rparr>
      in cerr_flush (cerr_message E ''message'' ''success'' msg_reset_done [] w2))"

text \<open>
  \<^verbatim>\<open>LlmStdioCore::handleChatRequest\<close>. \<open>chat_messages\<close> is the list
  \<^verbatim>\<open>messages\<close> the handler assembles. The engine's writes go through the tee to the
  streaming buffer over \<^verbatim>\<open>std::cout\<close> and to the capture of \<^verbatim>\<open>full_response\<close>. The
  flushes of the three local streams do nothing (their buffers do not override
  \<^verbatim>\<open>sync\<close>); \<^verbatim>\<open>std::cout.flush()\<close> is a flush of the stream the streaming buffer
  writes to. The sleep has no effect on the state. The handler is modelled where the
  engine call returns.
\<close>

definition chat_messages :: "world \<Rightarrow> Request \<Rightarrow> ChatMessages" where
  "chat_messages w req =
     (if m_system_prompt w \<noteq> [] then [(''system'', m_system_prompt w)] else [])
     @ m_chat_history w @ [(''user'', content req)]"

definition handleChatRequest :: "env \<Rightarrow> Request \<Rightarrow> world \<Rightarrow> error + world" where
  "handleChatRequest E req w =
     (let w1 = w\<lparr>m_processing := True\<rparr> in
      case max_new_tokens_of req of
        Inl err \<Rightarrow> Inl err
      | Inr max_new_tokens \<Rightarrow>
          (let streaming_buffer = \<lparr>out = std_cout w1, started = False\<rparr>;
               messages = chat_messages w1 req;
               full_response = [];
               tee = fold tee_stream_put (response E (m_llm w1) messages max_new_tokens)
                       (streaming_buffer, full_response);
               w2 = w1\<lparr>m_llm := m_llm w1 @ [Response messages max_new_tokens]\<rparr>;
               streaming_buffer = fst tee;
               full_response = snd tee;
               streaming_buffer = streaming_buffer\<lparr>out := out streaming_buffer @ [Flush]\<rparr>;
               streaming_buffer = endStream streaming_buffer;
               w3 = w2\<lparr>std_cout := out streaming_buffer\<rparr>;
               w4 = w3\<lparr>m_chat_history := m_chat_history w3 @ [(''user'', content req)]\<rparr>;
               w5 = w4\<lparr>m_chat_history := m_chat_history w4 @ [(''assistant'', full_response)]\<rparr>;
               w6 = cerr_message E ''status'' ''success'' msg_stream_done [] w5;
               w7 = cerr_flush (cerr_message E ''response'' ''success'' msg_response_done full_response w6)
           in Inr (w7\<lparr>m_processing := False\<rparr>)))"

text \<open>\<^verbatim>\<open>LlmStdioCore::handleStatusRequest\<close>.\<close>

definition handleStatusRequest :: "env \<Rightarrow> Request \<Rightarrow> world \<Rightarrow> world" where
  "handleStatusRequest E req w =
     (let status = (if m_processing w then ''processing'' else ''idle'');
          context = getContext E (m_llm w);
          w1 = w\<lparr>m_llm := m_llm w @ [GetContext]\<rparr>;
          info = ''status:'' @ status
                 @ '',prompt_len:'' @ to_string (fst context)
                 @ '',gen_seq_len:'' @ to_string (snd context)
                 @ '',chat_history_count:'' @ to_string (int (length (m_chat_history w1)))
      in cerr_flush (cerr_message E ''status'' ''info'' info [] w1))"

section \<open>Service loop\<close>

text \<open>
  \<^verbatim>\<open>LlmStdioCore::run\<close>. Standard input is the list of its lines; at its end
  \<^verbatim>\<open>std::getline\<close> leaves \<^verbatim>\<open>request\<close> empty with the end-of-file flag set. A line that
  ends the input without a newline is read like any other. \<open>run_loop\<close> is the
  \<^verbatim>\<open>while\<close> loop, one line per turn; an exception leaves the loop and the process.
\<close>

fun run_loop :: "env \<Rightarrow> string list \<Rightarrow> world \<Rightarrow> error + world" where
  "run_loop E [] w = Inr w"
| "run_loop E (request # rest) w =
     (if \<not> m_running w then Inr w
      else if request = [] then run_loop E rest w
      else
        (case parseRequest request of
           Inl err \<Rightarrow> Inl err
         | Inr req \<Rightarrow>
             if req_method req = ''chat'' then
               (case handleChatRequest E req w of
                  Inl err \<Rightarrow> Inl err
                | Inr w1 \<Rightarrow> run_loop E rest w1)
             else if req_method req = ''status'' then run_loop E rest (handleStatusRequest E req w)
             else if req_method req = ''system_prompt'' then
               run_loop E rest (handleSystemPromptRequest E req w)
             else if req_method req = ''reset'' then run_loop E rest (handleResetRequest E req w)
             else if req_method req = ''exit'' then Inr w
             else
               run_loop E rest
                 (cerr_flush (cerr_message E ''error'' ''error''
                    (msg_unknown_type @ req_method req) [] w))))"

definition run :: "env \<Rightarrow> string list \<Rightarrow> world \<Rightarrow> error + world" where
  "run E stdin w = run_loop E stdin (w\<lparr>m_running := True\<rparr>)"

section \<open>Definitions used to state the properties\<close>

text \<open>
  The escaping rule in the words of the specification: the seven named bytes get their
  two-character escapes, every other byte below \<open>0x20\<close> or above \<open>0x7F\<close> becomes
  \<^verbatim>\<open>\u00XX\<close> with the two hexadecimal digits of the byte, every remaining byte is
  copied. The hexadecimal digit of a value below 16 is given by its character code: the
  digits \<open>0\<close> to \<open>9\<close> start at code 48, the letters \<open>A\<close> to \<open>F\<close> at code 65.
\<close>

definition spec_hex_char :: "nat \<Rightarrow> char" where
  "spec_hex_char d = (if d < 10 then char_of (48 + d) else char_of (55 + d))"

definition spec_escape_byte :: "char \<Rightarrow> string" where
  "spec_escape_byte c =
     (if c = dquote then [backslash, dquote]
      else if c = backslash then [backslash, backslash]
      else if c = CHR 0x08 then [backslash, CHR ''b'']
      else if c = CHR 0x0C then [backslash, CHR ''f'']
      else if c = CHR 0x0A then [backslash, CHR ''n'']
      else if c = CHR 0x0D then [backslash, CHR ''r'']
      else if c = CHR 0x09 then [backslash, CHR ''t'']
      else if (of_char c :: nat) < 0x20 \<or> 0x7F < (of_char c :: nat)
        then [backslash, CHR ''u'', CHR ''0'', CHR ''0'',
              spec_hex_char (of_char c div 16), spec_hex_char (of_char c mod 16)]
      else [c])"

text \<open>
  A JSON reader after RFC 8259 for objects whose members are strings and integers. It
  reads the text byte by byte: white space between the tokens is skipped; a string runs
  to the closing quote, a control byte in it is refused and a backslash takes one of the
  two-character escapes (the reader does not take \<^verbatim>\<open>\u\<close> escapes); a number is an
  optional minus sign and decimal digits without a leading zero, and a fraction or an
  exponent is refused; after the closing brace only white space may follow. The result
  is the list of the members in the order of the text, or \<open>None\<close> where the text is
  refused. The reader uses no function of the encoder.
\<close>

datatype json_value = JString string | JNumber int

datatype reader_state =
    AtStart
  | AtKeyOrEnd
  | AtKey
  | InString "string option" string
  | InEscape "string option" string
  | AtColon string
  | AtValue string
  | AfterMinus string
  | AfterZero string
  | InDigits string bool nat
  | AfterValue
  | AtEnd
  | Rejected

definition json_ws :: "char \<Rightarrow> bool" where
  "json_ws c = (c = CHR '' '' \<or> c = CHR 0x09 \<or> c = CHR 0x0A \<or> c = CHR 0x0D)"

definition json_digit :: "char \<Rightarrow> bool" where
  "json_digit c = (48 \<le> (of_char c :: nat) \<and> (of_char c :: nat) \<le> 57)"

definition digit_value :: "char \<Rightarrow> nat" where
  "digit_value c = of_char c - 48"

definition json_escape :: "char \<Rightarrow> char option" where
  "json_escape c =
     (if c = dquote then Some dquote
      else if c = backslash then Some backslash
      else if c = CHR ''/'' then Some (CHR ''/'')
      else if c = CHR ''b'' then Some (CHR 0x08)
      else if c = CHR ''f'' then Some (CHR 0x0C)
      else if c = CHR ''n'' then Some (CHR 0x0A)
      else if c = CHR ''r'' then Some (CHR 0x0D)
      else if c = CHR ''t'' then Some (CHR 0x09)
      else None)"

definition end_number ::
  "string \<Rightarrow> json_value \<Rightarrow> char \<Rightarrow> (string \<times> json_value) list
     \<Rightarrow> reader_state \<times> (string \<times> json_value) list" where
  "end_number key v c ms =
     (if c = CHR '','' then (AtKey, ms @ [(key, v)])
      else if c = CHR ''}'' then (AtEnd, ms @ [(key, v)])
      else if json_ws c then (AfterValue, ms @ [(key, v)])
      else (Rejected, ms))"

fun json_step ::
  "char \<Rightarrow> reader_state \<times> (string \<times> json_value) list
     \<Rightarrow> reader_state \<times> (string \<times> json_value) list" where
  "json_step c (AtStart, ms) =
     (if c = CHR ''{'' then (AtKeyOrEnd, ms)
      else if json_ws c then (AtStart, ms) else (Rejected, ms))"
| "json_step c (AtKeyOrEnd, ms) =
     (if c = dquote then (InString None [], ms)
      else if c = CHR ''}'' then (AtEnd, ms)
      else if json_ws c then (AtKeyOrEnd, ms) else (Rejected, ms))"
| "json_step c (AtKey, ms) =
     (if c = dquote then (InString None [], ms)
      else if json_ws c then (AtKey, ms) else (Rejected, ms))"
| "json_step c (InString k buf, ms) =
     (if c = dquote then
        (case k of None \<Rightarrow> (AtColon buf, ms)
                 | Some key \<Rightarrow> (AfterValue, ms @ [(key, JString buf)]))
      else if c = backslash then (InEscape k buf, ms)
      else if (of_char c :: nat) < 0x20 then (Rejected, ms)
      else (InString k (buf @ [c]), ms))"
| "json_step c (InEscape k buf, ms) =
     (case json_escape c of None \<Rightarrow> (Rejected, ms)
                          | Some e \<Rightarrow> (InString k (buf @ [e]), ms))"
| "json_step c (AtColon key, ms) =
     (if c = CHR '':'' then (AtValue key, ms)
      else if json_ws c then (AtColon key, ms) else (Rejected, ms))"
| "json_step c (AtValue key, ms) =
     (if c = dquote then (InString (Some key) [], ms)
      else if c = CHR ''-'' then (AfterMinus key, ms)
      else if json_digit c then
        (if digit_value c = 0 then (AfterZero key, ms) else (InDigits key False (digit_value c), ms))
      else if json_ws c then (AtValue key, ms) else (Rejected, ms))"
| "json_step c (AfterMinus key, ms) =
     (if json_digit c then
        (if digit_value c = 0 then (AfterZero key, ms) else (InDigits key True (digit_value c), ms))
      else (Rejected, ms))"
| "json_step c (AfterZero key, ms) = end_number key (JNumber 0) c ms"
| "json_step c (InDigits key neg n, ms) =
     (if json_digit c then (InDigits key neg (10 * n + digit_value c), ms)
      else end_number key (JNumber (if neg then - int n else int n)) c ms)"
| "json_step c (AfterValue, ms) =
     (if c = CHR '','' then (AtKey, ms)
      else if c = CHR ''}'' then (AtEnd, ms)
      else if json_ws c then (AfterValue, ms) else (Rejected, ms))"
| "json_step c (AtEnd, ms) = (if json_ws c then (AtEnd, ms) else (Rejected, ms))"
| "json_step c (Rejected, ms) = (Rejected, ms)"

definition read_json_object :: "string \<Rightarrow> (string \<times> json_value) list option" where
  "read_json_object text =
     (case fold json_step text (AtStart, []) of
        (AtEnd, ms) \<Rightarrow> Some ms
      | _ \<Rightarrow> None)"

text \<open>
  The bytes that \<^verbatim>\<open>escapeJsonString\<close> copies: \<open>0x20\<close> to \<open>0x7F\<close> without the
  quote and the backslash.
\<close>

definition plain_char :: "char \<Rightarrow> bool" where
  "plain_char c = (0x20 \<le> (of_char c :: nat) \<and> (of_char c :: nat) \<le> 0x7F
                   \<and> c \<noteq> dquote \<and> c \<noteq> backslash)"

text \<open>The input line of the decoder example.\<close>

definition chat_line :: string where
  \<open>chat_line =
     ''{"type":"chat","id":"7","prompt":"hello '' @ [backslash] @ ''"world'' @ [backslash] @ ''""}''\<close>

text \<open>
  The bytes the engine writes to its sink, and the operations these writes cause on
  \<^verbatim>\<open>std::cout\<close> behind the start marker: one \<^verbatim>\<open>write\<close> and one \<^verbatim>\<open>flush\<close> for
  every write of at least one byte.
\<close>

fun sink_op_bytes :: "sink_op \<Rightarrow> string" where
  "sink_op_bytes (Sputn s) = s"
| "sink_op_bytes (Sputc ch) = [ch]"

definition sink_bytes :: "sink_op list \<Rightarrow> string" where
  "sink_bytes ops = concat (map sink_op_bytes ops)"

fun content_op :: "sink_op \<Rightarrow> stream_op list" where
  "content_op (Sputn s) = (if s = [] then [] else [WriteBytes s, Flush])"
| "content_op (Sputc ch) = [WriteBytes [ch], Flush]"

definition content_ops :: "sink_op list \<Rightarrow> stream_op list" where
  "content_ops ops = concat (map content_op ops)"

abbreviation start_marker :: "stream_op list" where
  "start_marker \<equiv> [Insert ''[LLM_STREAM_START]'', Endl, Flush]"

abbreviation end_marker :: "stream_op list" where
  "end_marker \<equiv> [Insert ''[LLM_STREAM_END]'', Endl, Flush]"

text \<open>
  Concrete inputs on which the properties are instantiated: an engine that writes
  \<open>Hi\<close> with \<^verbatim>\<open>sputn\<close> and \<open>!\<close> with \<^verbatim>\<open>sputc\<close> on every call, an engine that
  only ever writes the empty string, and three requests.
\<close>

definition example_env :: env where
  "example_env =
     \<lparr>response = (\<lambda>calls messages max_new_tokens. [Sputn ''Hi'', Sputc (CHR ''!'')]),
      getContext = (\<lambda>calls. (0, 0)),
      system_clock_now = (\<lambda>k. 1700000000000 + int k)\<rparr>"

definition silent_env :: env where
  "silent_env =
     \<lparr>response = (\<lambda>calls messages max_new_tokens. [Sputn []]),
      getContext = (\<lambda>calls. (0, 0)),
      system_clock_now = (\<lambda>k. 1700000000000 + int k)\<rparr>"

definition example_chat :: Request where
  "example_chat =
     \<lparr>req_id = ''1'', req_method = ''chat'', content = ''hello'',
      params = [''max_new_tokens'' \<mapsto> ''128'']\<rparr>"

definition example_system_prompt :: Request where
  "example_system_prompt =
     \<lparr>req_id = ''2'', req_method = ''system_prompt'', content = ''X'', params = Map.empty\<rparr>"

definition example_reset :: Request where
  "example_reset =
     \<lparr>req_id = ''3'', req_method = ''reset'', content = [], params = Map.empty\<rparr>"

text \<open>
  The lines of a byte sequence: every newline ends a line, and bytes behind the last
  newline form a last line. \<open>stdout_lines\<close> are the lines on the primary channel and
  \<open>marker_lines m\<close> counts those that are exactly \<open>m\<close>.
\<close>

abbreviation newline :: char where
  "newline \<equiv> CHR 0x0A"

fun lines_from :: "string \<Rightarrow> string \<Rightarrow> string list" where
  "lines_from cur [] = (if cur = [] then [] else [cur])"
| "lines_from cur (c # cs) =
     (if c = newline then cur # lines_from [] cs else lines_from (cur @ [c]) cs)"

definition lines_of :: "string \<Rightarrow> string list" where
  "lines_of s = lines_from [] s"

definition stdout_lines :: "world \<Rightarrow> string list" where
  "stdout_lines w = lines_of (stream_bytes (std_cout w))"

definition marker_lines :: "string \<Rightarrow> world \<Rightarrow> nat" where
  "marker_lines m w = count_list (stdout_lines w) m"

text \<open>
  Two more engines: one writes \<open>Hi!\<close> and a newline, one writes the text of the end
  marker and a newline.
\<close>

definition newline_env :: env where
  "newline_env =
     \<lparr>response = (\<lambda>calls messages max_new_tokens. [Sputn ''Hi!'', Sputc newline]),
      getContext = (\<lambda>calls. (0, 0)),
      system_clock_now = (\<lambda>k. 1700000000000 + int k)\<rparr>"

definition marker_env :: env where
  "marker_env =
     \<lparr>response = (\<lambda>calls messages max_new_tokens. [Sputn ''[LLM_STREAM_END]'', Sputc newline]),
      getContext = (\<lambda>calls. (0, 0)),
      system_clock_now = (\<lambda>k. 1700000000000 + int k)\<rparr>"

section \<open>Auxiliary facts\<close>

lemma of_char_lt_256: "(of_char c :: nat) < 256"
  by (cases c) (simp add: of_char_def)

lemma uchar_to_int_nat: "uchar_to_int c = int (of_char c)"
  by (simp add: uchar_to_int_def of_nat_of_char)

text \<open>The signed reading of a byte: the upper half of the range is negative.\<close>

lemma char_to_int_eq:
  "char_to_int c = (if (of_char c :: nat) < 128 then int (of_char c) else int (of_char c) - 256)"
proof -
  define n where "n = (of_char c :: nat)"
  have l: "n < 256" unfolding n_def by (rule of_char_lt_256)
  have w: "(of_char c :: 8 word) = of_nat n"
    by (simp add: of_char_def n_def)
  have s: "sint (of_nat n :: 8 word) = (int n + 128) mod 256 - 128"
    using l by (simp add: sint_uint unsigned_of_nat signed_take_bit_eq_take_bit_shift take_bit_eq_mod)
  have "(int n + 128) mod 256 = (if n < 128 then int n + 128 else int n - 128)"
  proof (cases "n < 128")
    case True
    then show ?thesis by simp
  next
    case False
    have "(int n + 128) mod 256 = (int n - 128 + 1 * 256) mod 256" by (simp add: algebra_simps)
    also have "\<dots> = (int n - 128) mod 256" by (simp only: mod_mult_self1)
    also have "\<dots> = int n - 128" using False l by simp
    finally show ?thesis using False by simp
  qed
  with s have "sint (of_nat n :: 8 word) = (if n < 128 then int n else int n - 256)"
    by simp
  then show ?thesis unfolding char_to_int_def w n_def .
qed

text \<open>
  The test \<^verbatim>\<open>c < ' ' || c > 127\<close> selects the same bytes whether \<^verbatim>\<open>char\<close> is signed
  (then the second disjunct never holds and the bytes from \<open>0x80\<close> on are negative) or
  unsigned.
\<close>

lemma char_to_int_range:
  "(char_to_int c < 32 \<or> char_to_int c > 127) = ((of_char c :: nat) < 32 \<or> 127 < (of_char c :: nat))"
proof -
  define n where "n = (of_char c :: nat)"
  have l: "n < 256" unfolding n_def by (rule of_char_lt_256)
  have "char_to_int c = (if n < 128 then int n else int n - 256)"
    unfolding n_def by (rule char_to_int_eq)
  then show ?thesis unfolding n_def [symmetric] using l by (simp split: if_splits)
qed

lemma uchar_to_int_range:
  "(uchar_to_int c < 32 \<or> uchar_to_int c > 127) = ((of_char c :: nat) < 32 \<or> 127 < (of_char c :: nat))"
  by (simp add: uchar_to_int_nat)

lemma sprintf_04X_byte:
  assumes "n < 256"
  shows "sprintf_04X n = [CHR ''0'', CHR ''0'', hex_digit (n div 16), hex_digit (n mod 16)]"
proof (cases "n < 16")
  case True
  have r: "replicate 3 (CHR ''0'') = ''000''" by (simp add: numeral_3_eq_3)
  have z: "hex_digit 0 = CHR ''0''" by (simp add: hex_digit_def)
  from True have "hex_digits n = [hex_digit n]" by (simp add: hex_digits.simps)
  with True show ?thesis by (simp add: sprintf_04X_def r z)
next
  case False
  have r: "replicate 2 (CHR ''0'') = ''00''" by (simp add: numeral_2_eq_2)
  from assms have "n div 16 < 16" by simp
  then have "hex_digits (n div 16) = [hex_digit (n div 16)]" by (simp add: hex_digits.simps)
  with False have "hex_digits n = [hex_digit (n div 16), hex_digit (n mod 16)]"
    by (subst hex_digits.simps) simp
  then show ?thesis by (simp add: sprintf_04X_def r)
qed

lemma hex_digit_table: "list_all (\<lambda>d. hex_digit d = spec_hex_char d) [0..<16]"
  by code_simp

lemma hex_digit_spec: "d < 16 \<Longrightarrow> hex_digit d = spec_hex_char d"
  using hex_digit_table by (simp add: list_all_iff)

lemma dec_digit_table: "list_all (\<lambda>d. dec_digit d = char_of (48 + d)) [0..<10]"
  by code_simp

lemma dec_digit_code: "d < 10 \<Longrightarrow> dec_digit d = char_of (48 + d)"
  using dec_digit_table by (simp add: list_all_iff)

lemma escape_char_spec: "escape_char c = spec_escape_byte c"
proof -
  have "(of_char c :: nat) div 16 < 16"
    using of_char_lt_256 [of c] by (simp add: less_mult_imp_div_less)
  then show ?thesis
    using of_char_lt_256 [of c]
    by (simp add: escape_char_def spec_escape_byte_def char_to_int_range uchar_to_int_nat
        sprintf_04X_byte hex_digit_spec)
qed

lemma foldl_append_concat: "foldl (\<lambda>acc c. acc @ f c) acc xs = acc @ concat (map f xs)"
  by (induction xs arbitrary: acc) simp_all

text \<open>Unfolding the decoder and the override check on a concrete input.\<close>

lemmas decoder_eval = parseRequest_def extractValue_def find_str_def find_char_def char_at_def
  substr_def size_sub_def bare_value_def skip_blanks.simps scan_bare.simps closing_quote.simps

lemmas override_eval = max_new_tokens_of_def stoi_def is_digit_def is_space_def digits_value_def

text \<open>The tee: every byte written reaches both buffers, and the first one starts the stream.\<close>

lemma to_int_type_not_EOF: "to_int_type ch \<noteq> EOF"
  by (simp add: to_int_type_def uchar_to_int_nat)

lemma char_of_to_int_type: "char_of (to_int_type ch) = ch"
  by (simp add: to_int_type_def uchar_to_int_def)

lemma content_op_empty: "sink_op_bytes op = [] \<Longrightarrow> content_op op = []"
  by (cases op) simp_all

lemma tee_stream_put_eq:
  "tee_stream_put op (sb, cap) =
     (if sink_op_bytes op = [] then sb
      else \<lparr>out = out sb @ (if started sb then [] else start_marker) @ content_op op,
            started = True\<rparr>,
      cap @ sink_op_bytes op)"
  by (cases op)
    (simp_all add: TeeBuffer_xsputn_def TeeBuffer_overflow_def StreamingBuffer_xsputn_def
      StreamingBuffer_overflow_def CaptureBuffer_xsputn_def CaptureBuffer_overflow_def
      startStream_def to_int_type_not_EOF char_of_to_int_type Let_def)

lemma content_ops_empty: "sink_bytes ops = [] \<Longrightarrow> content_ops ops = []"
  by (induction ops) (simp_all add: sink_bytes_def content_ops_def content_op_empty)

lemma fold_tee_stream_put:
  "fold tee_stream_put ops (sb, cap) =
     (if sink_bytes ops = [] then sb
      else \<lparr>out = out sb @ (if started sb then [] else start_marker) @ content_ops ops,
            started = True\<rparr>,
      cap @ sink_bytes ops)"
proof (induction ops arbitrary: sb cap)
  case Nil
  then show ?case by (simp add: sink_bytes_def)
next
  case (Cons op ops)
  have b: "sink_bytes (op # ops) = sink_op_bytes op @ sink_bytes ops"
    by (simp add: sink_bytes_def)
  have c: "content_ops (op # ops) = content_op op @ content_ops ops"
    by (simp add: content_ops_def)
  show ?case
    by (simp add: tee_stream_put_eq Cons.IH b c content_op_empty content_ops_empty)
qed

text \<open>The decoder reads within the line: none of its reads or substrings can fail.\<close>

lemma first_index_less: "first_index c xs = Some i \<Longrightarrow> i < length xs"
  by (induction xs arbitrary: i) (auto split: if_splits)

lemma find_char_bounds: "find_char s c pos = Some i \<Longrightarrow> pos \<le> i \<and> i < length s"
  by (auto simp: find_char_def dest!: first_index_less)

lemma skip_blanks_le: "p \<le> length s \<Longrightarrow> skip_blanks s p \<le> length s"
proof (induction s p rule: skip_blanks.induct)
  case (1 s p)
  then show ?case by (subst skip_blanks.simps) auto
qed

lemma scan_bare_le: "p \<le> length s \<Longrightarrow> scan_bare s p \<le> length s"
proof (induction s p rule: scan_bare.induct)
  case (1 s p)
  then show ?case by (subst scan_bare.simps) auto
qed

lemma char_at_Inr: "p \<le> length s \<Longrightarrow> \<exists>ch. char_at s p = Inr ch"
  by (simp add: char_at_def)

lemma char_at_dquote: "char_at s p = Inr dquote \<Longrightarrow> p < length s"
  by (auto simp: char_at_def split: if_splits)

lemma substr_Inr: "p \<le> length s \<Longrightarrow> \<exists>v. substr s p n = Inr v"
  by (simp add: substr_def)

lemma bare_value_Inr: "p \<le> length s \<Longrightarrow> \<exists>v. bare_value s p = Inr v"
  by (simp add: bare_value_def substr_def)

lemma closing_quote_Inr:
  "(\<And>e. end_pos = Some e \<Longrightarrow> 1 \<le> e \<and> e < length s) \<Longrightarrow> \<exists>r. closing_quote s end_pos = Inr r"
proof (induction s end_pos rule: closing_quote.induct)
  case (1 s end_pos)
  show ?case
  proof (cases end_pos)
    case None
    then show ?thesis by (subst closing_quote.simps) simp
  next
    case (Some e)
    with "1.prems" have e: "1 \<le> e" "e < length s" by auto
    then have sub: "size_sub e 1 = e - 1" by (simp add: size_sub_def)
    from e have "e - 1 < length s" by arith
    then have "char_at s (e - 1) = Inr (s ! (e - 1))" unfolding char_at_def by simp
    with sub have c: "char_at s (size_sub e 1) = Inr (s ! (e - 1))" by simp
    show ?thesis
    proof (cases "s ! (e - 1) = backslash")
      case True
      have "\<exists>r. closing_quote s (find_char s dquote (e + 1)) = Inr r"
      proof (rule "1.IH" [OF Some c True])
        fix e' assume "find_char s dquote (e + 1) = Some e'"
        then show "1 \<le> e' \<and> e' < length s" by (auto dest: find_char_bounds)
      qed
      with Some c True show ?thesis by (subst closing_quote.simps) simp
    next
      case False
      with Some c show ?thesis by (subst closing_quote.simps) simp
    qed
  qed
qed

lemma extractValue_Inr: "\<exists>v. extractValue s key = Inr v"
proof (cases "find_str s ([dquote] @ key @ [dquote]) 0")
  case None
  then show ?thesis by (simp add: extractValue_def)
next
  case (Some key_pos)
  note kp = this
  show ?thesis
  proof (cases "find_char s (CHR '':'') key_pos")
    case None
    with kp show ?thesis by (simp add: extractValue_def)
  next
    case (Some colon_pos)
    then have "colon_pos + 1 \<le> length s" by (auto dest: find_char_bounds)
    then have sp: "skip_blanks s (colon_pos + 1) \<le> length s" by (rule skip_blanks_le)
    then obtain ch where ch: "char_at s (skip_blanks s (colon_pos + 1)) = Inr ch"
      using char_at_Inr by blast
    show ?thesis
    proof (cases "ch = dquote")
      case False
      with kp Some ch bare_value_Inr [OF sp] show ?thesis
        by (simp add: extractValue_def)
    next
      case True
      with ch have lt: "skip_blanks s (colon_pos + 1) < length s" by (auto dest: char_at_dquote)
      then have le: "skip_blanks s (colon_pos + 1) + 1 \<le> length s" by simp
      have "\<exists>r. closing_quote s (find_char s dquote (skip_blanks s (colon_pos + 1) + 1)) = Inr r"
        by (rule closing_quote_Inr) (auto dest: find_char_bounds)
      then obtain r where r: "closing_quote s (find_char s dquote (skip_blanks s (colon_pos + 1) + 1)) = Inr r"
        by blast
      from le have "\<exists>v. bare_value s (Suc (skip_blanks s (colon_pos + 1))) = Inr v"
        by (intro bare_value_Inr) simp
      moreover from le have "\<exists>v. substr s (Suc (skip_blanks s (colon_pos + 1))) n = Inr v" for n
        by (intro substr_Inr) simp
      ultimately show ?thesis using kp Some ch True r
        by (cases r) (auto simp: extractValue_def Let_def)
    qed
  qed
qed

lemma parseRequest_Inr: "\<exists>req. parseRequest line = Inr req"
proof -
  obtain ty where ty: "extractValue line ''type'' = Inr ty" using extractValue_Inr by blast
  obtain i where i: "extractValue line ''id'' = Inr i" using extractValue_Inr by blast
  obtain p where p: "extractValue line ''prompt'' = Inr p" using extractValue_Inr by blast
  obtain m where m: "extractValue line ''max_new_tokens'' = Inr m" using extractValue_Inr by blast
  obtain c where c: "extractValue line ''content'' = Inr c" using extractValue_Inr by blast
  show ?thesis by (simp add: parseRequest_def ty i p m c Let_def)
qed

text \<open>The chat handler where the override is accepted or absent, and where \<^verbatim>\<open>std::stoi\<close> raises.\<close>

lemma chat_messages_processing [simp]: "chat_messages (w\<lparr>m_processing := b\<rparr>) req = chat_messages w req"
  by (simp add: chat_messages_def)

lemma handleChatRequest_returns:
  assumes "max_new_tokens_of req = Inr n"
  shows "handleChatRequest E req w =
     Inr (w\<lparr>m_processing := False,
            m_chat_history := m_chat_history w @
              [(''user'', content req),
               (''assistant'', sink_bytes (response E (m_llm w) (chat_messages w req) n))],
            m_llm := m_llm w @ [Response (chat_messages w req) n],
            std_cout := std_cout w @
              (if sink_bytes (response E (m_llm w) (chat_messages w req) n) = [] then [Flush]
               else start_marker @ content_ops (response E (m_llm w) (chat_messages w req) n)
                    @ [Flush] @ end_marker),
            std_cerr := std_cerr w @
              [Insert (createStderrMessage (system_clock_now E (clock_reads w))
                         ''status'' ''success'' msg_stream_done [] []), Endl,
               Insert (createStderrMessage (system_clock_now E (Suc (clock_reads w)))
                         ''response'' ''success'' msg_response_done
                         (sink_bytes (response E (m_llm w) (chat_messages w req) n)) []), Endl,
               Flush],
            clock_reads := Suc (Suc (clock_reads w))\<rparr>)"
  using assms
  by (simp add: handleChatRequest_def Let_def fold_tee_stream_put endStream_def cerr_message_def
      cerr_flush_def)

lemma handleChatRequest_raises:
  "max_new_tokens_of req = Inl err \<Longrightarrow> handleChatRequest E req w = Inl err"
  by (simp add: handleChatRequest_def)

lemma handleChatRequest_Inr_budget:
  "handleChatRequest E req w = Inr w' \<Longrightarrow> \<exists>n. max_new_tokens_of req = Inr n"
  by (cases "max_new_tokens_of req") (simp_all add: handleChatRequest_raises)

lemma count_content_ops: "count_list (content_ops ops) (Insert m) = 0"
proof (induction ops)
  case Nil
  show ?case by (simp add: content_ops_def)
next
  case (Cons op ops)
  have "count_list (content_op op) (Insert m) = 0" by (cases op) simp_all
  with Cons show ?case by (simp add: content_ops_def)
qed

lemma stream_bytes_content_ops: "stream_bytes (content_ops ops) = sink_bytes ops"
proof (induction ops)
  case Nil
  show ?case by (simp add: stream_bytes_def content_ops_def sink_bytes_def)
next
  case (Cons op ops)
  have "concat (map op_bytes (content_op op)) = sink_op_bytes op" by (cases op) simp_all
  with Cons show ?case by (simp add: stream_bytes_def content_ops_def sink_bytes_def)
qed

lemma stream_bytes_append: "stream_bytes (xs @ ys) = stream_bytes xs @ stream_bytes ys"
  by (simp add: stream_bytes_def)

text \<open>The effect of the other handlers on the state, and the history along the service loop.\<close>

lemma cerr_message_flush:
  "cerr_flush (cerr_message E message_type status message response_text w) =
     w\<lparr>std_cerr := std_cerr w @
          [Insert (createStderrMessage (system_clock_now E (clock_reads w))
                     message_type status message response_text []), Endl, Flush],
       clock_reads := Suc (clock_reads w)\<rparr>"
  by (simp add: cerr_message_def cerr_flush_def)

lemma handleChatRequest_history:
  assumes "handleChatRequest E req w = Inr w'"
  shows "\<exists>r. m_chat_history w' = m_chat_history w @ [(''user'', content req), (''assistant'', r)]"
proof -
  from assms obtain n where "max_new_tokens_of req = Inr n"
    by (auto dest: handleChatRequest_Inr_budget)
  with assms show ?thesis by (auto simp: handleChatRequest_returns)
qed

lemma handleResetRequest_eq:
  "handleResetRequest E req w =
     w\<lparr>m_chat_history := [], m_llm := m_llm w @ [Reset],
       std_cerr := std_cerr w @
         [Insert (createStderrMessage (system_clock_now E (clock_reads w))
                    ''message'' ''success'' msg_reset_done [] []), Endl, Flush],
       clock_reads := Suc (clock_reads w)\<rparr>"
  by (simp add: handleResetRequest_def cerr_message_def cerr_flush_def Let_def)

lemma handleStatusRequest_history: "m_chat_history (handleStatusRequest E req w) = m_chat_history w"
  by (simp add: handleStatusRequest_def cerr_message_def cerr_flush_def Let_def)

lemma handleSystemPromptRequest_history:
  "m_chat_history (handleSystemPromptRequest E req w) = m_chat_history w"
  by (simp add: handleSystemPromptRequest_def cerr_message_def cerr_flush_def)

lemma run_loop_history_even:
  "run_loop E stdin w = Inr w' \<Longrightarrow> even (length (m_chat_history w))
     \<Longrightarrow> even (length (m_chat_history w'))"
proof (induction stdin arbitrary: w)
  case Nil
  then show ?case by simp
next
  case (Cons request rest)
  show ?case
  proof (cases "\<not> m_running w \<or> request = []")
    case True
    with Cons show ?thesis by (auto split: if_splits)
  next
    case False
    then have run: "m_running w" and ne: "request \<noteq> []" by auto
    obtain req where req: "parseRequest request = Inr req" using parseRequest_Inr by blast
    consider (chat) "req_method req = ''chat''" | (status) "req_method req = ''status''"
      | (sp) "req_method req = ''system_prompt''" | (reset) "req_method req = ''reset''"
      | (exit) "req_method req = ''exit''"
      | (unknown) "req_method req \<noteq> ''chat''" "req_method req \<noteq> ''status''"
          "req_method req \<noteq> ''system_prompt''" "req_method req \<noteq> ''reset''"
          "req_method req \<noteq> ''exit''"
      by blast
    then show ?thesis
    proof cases
      case chat
      with Cons.prems run ne req obtain w1 where
        h: "handleChatRequest E req w = Inr w1" and r: "run_loop E rest w1 = Inr w'"
        by (auto split: sum.splits)
      from handleChatRequest_history [OF h] Cons.prems(2) have "even (length (m_chat_history w1))"
        by auto
      with r show ?thesis by (rule Cons.IH)
    next
      case status
      with Cons.prems run ne req have "run_loop E rest (handleStatusRequest E req w) = Inr w'"
        by simp
      then show ?thesis by (rule Cons.IH) (simp add: handleStatusRequest_history Cons.prems)
    next
      case sp
      with Cons.prems run ne req have "run_loop E rest (handleSystemPromptRequest E req w) = Inr w'"
        by simp
      then show ?thesis by (rule Cons.IH) (simp add: handleSystemPromptRequest_history Cons.prems)
    next
      case reset
      with Cons.prems run ne req have "run_loop E rest (handleResetRequest E req w) = Inr w'"
        by simp
      then show ?thesis by (rule Cons.IH) (simp add: handleResetRequest_eq)
    next
      case exit
      with Cons.prems run ne req show ?thesis by simp
    next
      case unknown
      with Cons.prems run ne req have
        "run_loop E rest (cerr_flush (cerr_message E ''error'' ''error''
            (msg_unknown_type @ req_method req) [] w)) = Inr w'"
        by simp
      then show ?thesis
        by (rule Cons.IH) (simp add: cerr_message_def cerr_flush_def Cons.prems)
    qed
  qed
qed

lemmas init_fields = LlmStdioCore_init_def

text \<open>The reader on the digits of \<^verbatim>\<open>std::to_string\<close> and on strings of plain bytes.\<close>

lemma of_char_dec_digit: "d < 10 \<Longrightarrow> (of_char (dec_digit d) :: nat) = 48 + d"
  by (simp add: dec_digit_code)

lemma dec_digit_reader:
  assumes "d < 10"
  shows "json_digit (dec_digit d)" and "digit_value (dec_digit d) = d"
    and "dec_digit d \<noteq> dquote" and "dec_digit d \<noteq> CHR ''-''" and "\<not> json_ws (dec_digit d)"
proof -
  note v = of_char_dec_digit [OF assms]
  show "json_digit (dec_digit d)" using assms by (simp add: json_digit_def v)
  show "digit_value (dec_digit d) = d" by (simp add: digit_value_def v)
  have ne: "dec_digit d \<noteq> c" if "(of_char c :: nat) < 48" for c
    using that v by auto
  show "dec_digit d \<noteq> dquote" by (rule ne) simp
  show "dec_digit d \<noteq> CHR ''-''" by (rule ne) simp
  show "\<not> json_ws (dec_digit d)"
    unfolding json_ws_def using ne [of "CHR '' ''"] ne [of "CHR 0x09"] ne [of "CHR 0x0A"] ne [of "CHR 0x0D"]
    by simp
qed

lemma read_digits:
  "0 < n \<Longrightarrow> fold json_step (dec_digits n) (AtValue k, ms) = (InDigits k False n, ms)
     \<and> fold json_step (dec_digits n) (AfterMinus k, ms) = (InDigits k True n, ms)"
proof (induction n rule: dec_digits.induct)
  case (1 n)
  show ?case
  proof (cases "n < 10")
    case True
    with "1.prems" show ?thesis
      by (subst (1 2) dec_digits.simps) (simp add: dec_digit_reader)
  next
    case False
    then have pos: "0 < n div 10" by simp
    have d: "n mod 10 < 10" by simp
    have eq: "10 * (n div 10) + n mod 10 = n" by simp
    from "1.IH" [OF False pos] False show ?thesis
      by (subst (1 2) dec_digits.simps) (simp add: dec_digit_reader [OF d] eq)
  qed
qed

lemma read_number:
  "fold json_step (to_string i @ ''}'') (AtValue k, ms) = (AtEnd, ms @ [(k, JNumber i)])"
proof -
  consider (neg) "i < 0" | (zero) "i = 0" | (pos) "0 < i" by linarith
  then show ?thesis
  proof cases
    case neg
    then have "0 < nat (- i)" by simp
    from read_digits [OF this, of k ms] neg show ?thesis
      by (simp add: to_string_def end_number_def json_digit_def)
  next
    case zero
    have "dec_digits 0 = [dec_digit 0]" by (subst dec_digits.simps) simp
    moreover have "json_digit (dec_digit 0)" "digit_value (dec_digit 0) = 0"
      "dec_digit 0 \<noteq> dquote" "dec_digit 0 \<noteq> CHR ''-''"
      by (simp_all add: dec_digit_reader)
    ultimately show ?thesis using zero
      by (simp add: to_string_def end_number_def)
  next
    case pos
    then have "0 < nat i" by simp
    from read_digits [OF this, of k ms] pos show ?thesis
      by (simp add: to_string_def end_number_def json_digit_def)
  qed
qed

lemma read_plain:
  "list_all plain_char s \<Longrightarrow>
     fold json_step (s @ [dquote]) (InString k buf, ms) =
       (case k of None \<Rightarrow> (AtColon (buf @ s), ms)
                | Some key \<Rightarrow> (AfterValue, ms @ [(key, JString (buf @ s))]))"
  by (induction s arbitrary: buf) (auto simp: plain_char_def split: option.splits)

lemma escape_plain_char: "plain_char c \<Longrightarrow> escape_char c = [c]"
  by (auto simp: escape_char_def plain_char_def char_to_int_range)

lemma escape_plain: "list_all plain_char s \<Longrightarrow> escapeJsonString s = s"
proof -
  assume "list_all plain_char s"
  then have "concat (map escape_char s) = s"
    by (induction s) (simp_all add: escape_plain_char)
  then show ?thesis by (simp add: escapeJsonString_def foldl_append_concat)
qed

lemma read_plain_close:
  "list_all plain_char s \<Longrightarrow>
     json_step dquote (fold json_step s (InString k buf, ms)) =
       (case k of None \<Rightarrow> (AtColon (buf @ s), ms)
                | Some key \<Rightarrow> (AfterValue, ms @ [(key, JString (buf @ s))]))"
  using read_plain [of s k buf ms] by simp

lemma read_number_close:
  "json_step (CHR ''}'') (fold json_step (to_string i) (AtValue k, ms)) =
     (AtEnd, ms @ [(k, JNumber i)])"
  using read_number [of i k ms] by simp

lemma createStderrMessage_text:
  \<open>createStderrMessage now_ms message_type status message response_text data =
      ''{"type":"'' @ escapeJsonString message_type @ ''"''
      @ (if status = [] then [] else '',"status":"'' @ escapeJsonString status @ ''"'')
      @ (if message = [] then [] else '',"message":"'' @ escapeJsonString message @ ''"'')
      @ (if response_text = [] then []
         else '',"response":"'' @ escapeJsonString response_text @ ''"'')
      @ (if data = [] then [] else '',"data":'' @ data)
      @ '',"timestamp":'' @ to_string now_ms @ ''}''\<close>
  by (simp add: createStderrMessage_def Let_def)

lemma read_createStderrMessage:
  assumes "list_all plain_char message_type" "list_all plain_char status"
    "list_all plain_char message" "list_all plain_char response_text"
  shows \<open>read_json_object (createStderrMessage now_ms message_type status message response_text []) =
     Some ([(''type'', JString message_type)]
           @ (if status = [] then [] else [(''status'', JString status)])
           @ (if message = [] then [] else [(''message'', JString message)])
           @ (if response_text = [] then [] else [(''response'', JString response_text)])
           @ [(''timestamp'', JNumber now_ms)])\<close>
  by (simp add: read_json_object_def createStderrMessage_text escape_plain assms
      read_plain_close read_number_close)

lemma to_string_example: "to_string 1700000000123 = ''1700000000123''"
  by (simp add: to_string_def dec_digits.simps dec_digit_def)

lemma to_string_small: "to_string 5 = ''5''" "to_string 42 = ''42''"
  by (simp_all add: to_string_def dec_digits.simps dec_digit_def)

text \<open>Lines of a text that is framed by the two marker lines.\<close>

lemma lines_from_no_newline:
  "newline \<notin> set xs \<Longrightarrow> lines_from cur (xs @ newline # ys) = (cur @ xs) # lines_from [] ys"
  by (induction xs arbitrary: cur) auto

lemma lines_from_append:
  "lines_from cur (xs @ newline # ys) = lines_from cur (xs @ [newline]) @ lines_from [] ys"
  by (induction xs arbitrary: cur) auto

lemma lines_of_framed:
  assumes "generated \<noteq> []" and "last generated = newline"
  shows "lines_of (''[LLM_STREAM_START]'' @ [newline] @ generated @ ''[LLM_STREAM_END]'' @ [newline]) =
           ''[LLM_STREAM_START]'' # lines_of generated @ [''[LLM_STREAM_END]'']"
proof -
  from assms obtain g where g: "generated = g @ [newline]"
    by (metis append_butlast_last_id)
  have s: "lines_from [] (''[LLM_STREAM_START]'' @ newline # rest) = ''[LLM_STREAM_START]'' # lines_from [] rest"
    for rest
    using lines_from_no_newline [of "''[LLM_STREAM_START]''" "[]" rest] by simp
  have e: "lines_from [] (''[LLM_STREAM_END]'' @ [newline]) = [''[LLM_STREAM_END]'']"
    using lines_from_no_newline [of "''[LLM_STREAM_END]''" "[]" "[]"] by simp
  have "lines_from [] (g @ newline # ''[LLM_STREAM_END]'' @ [newline]) =
          lines_from [] (g @ [newline]) @ lines_from [] (''[LLM_STREAM_END]'' @ [newline])"
    by (rule lines_from_append)
  with s [of "g @ newline # ''[LLM_STREAM_END]'' @ [newline]"] e show ?thesis
    by (simp add: lines_of_def g)
qed

section \<open>Properties of the message encoder\<close>

text \<open>
  Claim C7. For every input string, \<^verbatim>\<open>escapeJsonString\<close> is the concatenation, byte by
  byte, of what the specification's rule gives for each byte: the quote, backslash,
  backspace, form-feed, newline, carriage-return and tab bytes become their two-character
  escapes; every other byte below \<open>0x20\<close> or above \<open>0x7F\<close> becomes the six characters
  \<^verbatim>\<open>\u00XX\<close> whose last two are the hexadecimal digits of the raw byte value, so a
  multi-byte UTF-8 sequence is escaped one byte at a time; every remaining byte
  (\<open>0x20\<close> to \<open>0x7F\<close> except quote and backslash) is copied unchanged. Two inputs are
  evaluated: the three UTF-8 bytes \<open>E4 BD A0\<close> followed by the bytes \<open>1F\<close>, \<open>7F\<close>
  and \<open>00\<close>, and a text with quotes, a newline, a backslash, a tab, a backspace, a
  form feed and a carriage return.
\<close>

theorem escapeJsonString_bytewise:
  \<open>escapeJsonString input = concat (map spec_escape_byte input)
   \<and> escapeJsonString [CHR 0xE4, CHR 0xBD, CHR 0xA0, CHR 0x1F, CHR 0x7F, CHR 0x00] =
       [backslash] @ ''u00E4'' @ [backslash] @ ''u00BD'' @ [backslash] @ ''u00A0''
       @ [backslash] @ ''u001F'' @ [CHR 0x7F] @ [backslash] @ ''u0000''
   \<and> escapeJsonString (''He said "hi"'' @ [CHR 0x0A] @ ''Bye'' @ [backslash, CHR 0x09, CHR 0x08, CHR 0x0C, CHR 0x0D]) =
       ''He said '' @ [backslash] @ ''"hi'' @ [backslash] @ ''"'' @ [backslash] @ ''nBye''
       @ [backslash, backslash] @ [backslash] @ ''t'' @ [backslash] @ ''b'' @ [backslash] @ ''f''
       @ [backslash] @ ''r''\<close>
proof -
  have g: "escapeJsonString input = concat (map spec_escape_byte input)" for input
    by (simp add: escapeJsonString_def foldl_append_concat escape_char_spec [abs_def])
  show ?thesis
    unfolding g by code_simp
qed

text \<open>
  Claim C6. The reader decodes the output of \<^verbatim>\<open>createStderrMessage\<close> for type
  \<open>status\<close>, status \<open>ready\<close> and every other argument empty, at every clock reading,
  to the object with exactly the members \<open>type\<close> = \<open>"status"\<close>, \<open>status\<close> =
  \<open>"ready"\<close> and the number \<open>timestamp\<close> equal to the clock reading: there is no
  \<open>message\<close>, \<open>response\<close> or \<open>data\<close> member. For arguments of plain bytes and no
  data the reader finds the members type, status, message, response and timestamp in this
  order, each of the three optional ones exactly when its argument is not empty. For
  all arguments the output is the text with the members in the order type, status,
  message, response, data, timestamp, where \<open>data\<close> is put in unescaped exactly when it
  is not empty and \<open>timestamp\<close> always. Two outputs are evaluated in full.
\<close>

theorem createStderrMessage_fields:
  \<open>read_json_object (createStderrMessage now_ms ''status'' ''ready'' [] [] []) =
      Some [(''type'', JString ''status''), (''status'', JString ''ready''),
            (''timestamp'', JNumber now_ms)]
   \<and> createStderrMessage 1700000000123 ''status'' ''ready'' [] [] [] =
      ''{"type":"status","status":"ready","timestamp":1700000000123}''
   \<and> (list_all plain_char message_type \<and> list_all plain_char status
        \<and> list_all plain_char message \<and> list_all plain_char response_text \<longrightarrow>
      read_json_object
          (createStderrMessage now_ms message_type status message response_text []) =
        Some ([(''type'', JString message_type)]
              @ (if status = [] then [] else [(''status'', JString status)])
              @ (if message = [] then [] else [(''message'', JString message)])
              @ (if response_text = [] then [] else [(''response'', JString response_text)])
              @ [(''timestamp'', JNumber now_ms)]))
   \<and> createStderrMessage now_ms message_type status message response_text data =
      ''{"type":"'' @ escapeJsonString message_type @ ''"''
      @ (if status = [] then [] else '',"status":"'' @ escapeJsonString status @ ''"'')
      @ (if message = [] then [] else '',"message":"'' @ escapeJsonString message @ ''"'')
      @ (if response_text = [] then []
         else '',"response":"'' @ escapeJsonString response_text @ ''"'')
      @ (if data = [] then [] else '',"data":'' @ data)
      @ '',"timestamp":'' @ to_string now_ms @ ''}''
   \<and> createStderrMessage 5 ''error'' ''failed'' ''m'' ''r'' ''{"k":1}'' =
      ''{"type":"error","status":"failed","message":"m","response":"r","data":{"k":1},"timestamp":5}''\<close>
proof -
  have p: "list_all plain_char ''status''" "list_all plain_char ''ready''"
    "list_all plain_char ''error''" "list_all plain_char ''failed''"
    "list_all plain_char ''m''" "list_all plain_char ''r''" "list_all plain_char []"
    by (simp_all add: plain_char_def)
  note e = p [THEN escape_plain]
  have a: \<open>read_json_object (createStderrMessage now_ms ''status'' ''ready'' [] [] []) =
      Some [(''type'', JString ''status''), (''status'', JString ''ready''),
            (''timestamp'', JNumber now_ms)]\<close>
    using read_createStderrMessage [OF p(1) p(2) p(7) p(7), of now_ms] by simp
  have b: \<open>createStderrMessage 1700000000123 ''status'' ''ready'' [] [] [] =
      ''{"type":"status","status":"ready","timestamp":1700000000123}''\<close>
    by (simp add: createStderrMessage_text e to_string_example)
  have c: \<open>createStderrMessage 5 ''error'' ''failed'' ''m'' ''r'' ''{"k":1}'' =
      ''{"type":"error","status":"failed","message":"m","response":"r","data":{"k":1},"timestamp":5}''\<close>
    by (simp add: createStderrMessage_text e to_string_small)
  show ?thesis
    using a b c read_createStderrMessage [of message_type status message response_text now_ms]
      createStderrMessage_text [of now_ms message_type status message response_text data]
    by (simp only:) simp
qed

text \<open>The property on a response diagnostic with a negative clock reading.\<close>

theorem createStderrMessage_fields_witness:
  \<open>list_all plain_char ''response'' \<and> list_all plain_char ''success''
   \<and> list_all plain_char [] \<and> list_all plain_char ''Hi there!''
   \<and> read_json_object (createStderrMessage (- 42) ''response'' ''success'' [] ''Hi there!'' []) =
      Some [(''type'', JString ''response''), (''status'', JString ''success''),
            (''response'', JString ''Hi there!''), (''timestamp'', JNumber (- 42))]\<close>
proof -
  have p: "list_all plain_char ''response''" "list_all plain_char ''success''"
    "list_all plain_char []" "list_all plain_char ''Hi there!''"
    by (simp_all add: plain_char_def)
  note t = createStderrMessage_fields [of "- 42" "''response''" "''success''" "[]" "''Hi there!''"]
  from t [THEN conjunct2, THEN conjunct2, THEN conjunct1] p
  show ?thesis by simp
qed

section \<open>Properties of the request decoder\<close>

text \<open>
  Claim C1, as the code has it. For the line
  \<^verbatim>\<open>{"type":"chat","id":"7","prompt":"hello \"world\""}\<close> the decoder returns the method
  \<open>chat\<close>, the id \<open>7\<close> and, as content, the bytes between the opening quote and the
  first quote that no backslash precedes, unchanged: \<^verbatim>\<open>hello \"world\"\<close> with both
  backslashes still in it. The parameter \<open>max_new_tokens\<close> is the empty string.
\<close>

theorem parseRequest_chat_line_raw:
  \<open>parseRequest chat_line =
     Inr \<lparr>req_id = ''7'', req_method = ''chat'',
          content = ''hello '' @ [backslash] @ ''"world'' @ [backslash] @ ''"'',
          params = [''max_new_tokens'' \<mapsto> []]\<rparr>\<close>
  unfolding chat_line_def by (simp add: decoder_eval)

text \<open>
  Claim C1 in the wording of the specification does not hold: the content of the request
  that the decoder returns on that line is not \<^verbatim>\<open>hello "world"\<close> with the
  backslashes removed.
\<close>

theorem parseRequest_chat_line_not_unescaped:
  \<open>map_sum id content (parseRequest chat_line) \<noteq> Inr ''hello "world"''\<close>
  unfolding chat_line_def by (simp add: decoder_eval)

section \<open>Properties of the chat handler\<close>

text \<open>
  Claim C2, evaluated on the code. With the override \<open>128\<close> or \<open>+50\<close> the handler
  calls the engine with 128 or 50 as \<^verbatim>\<open>max_new_tokens\<close>; with \<open>12a\<close> or the empty
  string it calls it with the default \<open>-1\<close>. The override \<open>-\<close> passes the check
  (the loop over the digits has nothing to look at) and reaches \<^verbatim>\<open>std::stoi\<close>, which
  raises \<^verbatim>\<open>std::invalid_argument\<close>: the handler does not return, and neither does the
  service loop on an input line that carries this override.
\<close>

theorem handleChatRequest_override_strings:
  \<open>map_sum id m_llm
      (handleChatRequest E (req\<lparr>params := (params req)(''max_new_tokens'' \<mapsto> ''128'')\<rparr>) w)
     = Inr (m_llm w @ [Response (chat_messages w req) 128])
   \<and> map_sum id m_llm
      (handleChatRequest E (req\<lparr>params := (params req)(''max_new_tokens'' \<mapsto> ''+50'')\<rparr>) w)
     = Inr (m_llm w @ [Response (chat_messages w req) 50])
   \<and> map_sum id m_llm
      (handleChatRequest E (req\<lparr>params := (params req)(''max_new_tokens'' \<mapsto> ''12a'')\<rparr>) w)
     = Inr (m_llm w @ [Response (chat_messages w req) (- 1)])
   \<and> map_sum id m_llm
      (handleChatRequest E (req\<lparr>params := (params req)(''max_new_tokens'' \<mapsto> [])\<rparr>) w)
     = Inr (m_llm w @ [Response (chat_messages w req) (- 1)])
   \<and> max_new_tokens_of (req\<lparr>params := (params req)(''max_new_tokens'' \<mapsto> ''-'')\<rparr>)
     = Inl InvalidArgument
   \<and> handleChatRequest E (req\<lparr>params := (params req)(''max_new_tokens'' \<mapsto> ''-'')\<rparr>) w
     = Inl InvalidArgument
   \<and> run E [''{"type":"chat","id":"1","prompt":"hi","max_new_tokens":"-"}''] w
     = Inl InvalidArgument\<close>
proof -
  have m: "chat_messages w (req\<lparr>params := p\<rparr>) = chat_messages w req" for p
    by (simp add: chat_messages_def)
  have a: "max_new_tokens_of (req\<lparr>params := (params req)(''max_new_tokens'' \<mapsto> ''128'')\<rparr>) = Inr 128"
    and b: "max_new_tokens_of (req\<lparr>params := (params req)(''max_new_tokens'' \<mapsto> ''+50'')\<rparr>) = Inr 50"
    and c: "max_new_tokens_of (req\<lparr>params := (params req)(''max_new_tokens'' \<mapsto> ''12a'')\<rparr>) = Inr (- 1)"
    and d: "max_new_tokens_of (req\<lparr>params := (params req)(''max_new_tokens'' \<mapsto> [])\<rparr>) = Inr (- 1)"
    and e: "max_new_tokens_of (req\<lparr>params := (params req)(''max_new_tokens'' \<mapsto> ''-'')\<rparr>)
              = Inl InvalidArgument"
    by (simp_all add: override_eval)
  have r: \<open>run E [''{"type":"chat","id":"1","prompt":"hi","max_new_tokens":"-"}''] w
       = Inl InvalidArgument\<close>
    by (simp add: run_def decoder_eval override_eval handleChatRequest_def)
  show ?thesis
    by (simp add: handleChatRequest_returns [OF a] handleChatRequest_returns [OF b]
        handleChatRequest_returns [OF c] handleChatRequest_returns [OF d]
        handleChatRequest_raises [OF e] e r m)
qed

text \<open>
  Claim C3, as the code has it. Let a chat request complete, and let \<open>generated\<close> be
  the bytes the engine wrote to its sink. The handler never touches what \<^verbatim>\<open>std::cout\<close>
  held before. If \<open>generated\<close> is not empty, the handler adds the start marker line
  (text, \<^verbatim>\<open>std::endl\<close>, flush), then the content writes, then the end marker text
  with \<^verbatim>\<open>std::endl\<close> and a flush: the bytes added are the start marker, a newline,
  \<open>generated\<close>, the end marker and a newline, so the start marker comes before any
  content and the end marker directly behind the last generated byte. When \<open>generated\<close>
  ends with a newline, the lines added are the start marker line, the lines of
  \<open>generated\<close> and the end marker line; when moreover no line of \<open>generated\<close> is a
  marker, exactly one line is the start marker and exactly one is the end marker. If
  \<open>generated\<close> is empty the handler adds a flush only: no marker and no byte.
\<close>

theorem chat_stream_bytes:
  assumes "handleChatRequest E req w = Inr w'" and "max_new_tokens_of req = Inr n"
  shows "let ops = response E (m_llm w) (chat_messages w req) n;
             generated = sink_bytes ops;
             emitted = drop (length (std_cout w)) (std_cout w');
             bytes = stream_bytes emitted
         in take (length (std_cout w)) (std_cout w') = std_cout w
          \<and> (generated \<noteq> [] \<longrightarrow>
                emitted = start_marker @ content_ops ops @ [Flush] @ end_marker
              \<and> bytes = ''[LLM_STREAM_START]'' @ [newline] @ generated @ ''[LLM_STREAM_END]'' @ [newline]
              \<and> (last generated = newline \<longrightarrow>
                    lines_of bytes = ''[LLM_STREAM_START]'' # lines_of generated @ [''[LLM_STREAM_END]''])
              \<and> (last generated = newline
                    \<and> ''[LLM_STREAM_START]'' \<notin> set (lines_of generated)
                    \<and> ''[LLM_STREAM_END]'' \<notin> set (lines_of generated) \<longrightarrow>
                    count_list (lines_of bytes) ''[LLM_STREAM_START]'' = 1
                  \<and> count_list (lines_of bytes) ''[LLM_STREAM_END]'' = 1))
          \<and> (generated = [] \<longrightarrow> emitted = [Flush] \<and> bytes = [])"
proof -
  define ops where "ops = response E (m_llm w) (chat_messages w req) n"
  define generated where "generated = sink_bytes ops"
  define bytes where
    "bytes = ''[LLM_STREAM_START]'' @ [newline] @ generated @ ''[LLM_STREAM_END]'' @ [newline]"
  from assms have out: "std_cout w' = std_cout w @
      (if generated = [] then [Flush] else start_marker @ content_ops ops @ [Flush] @ end_marker)"
    unfolding ops_def generated_def by (auto simp: handleChatRequest_returns)
  have sb: "stream_bytes (start_marker @ content_ops ops @ [Flush] @ end_marker) = bytes"
    unfolding stream_bytes_append stream_bytes_content_ops bytes_def generated_def
    by (simp add: stream_bytes_def)
  have framed: "lines_of bytes = ''[LLM_STREAM_START]'' # lines_of generated @ [''[LLM_STREAM_END]'']"
    if "generated \<noteq> []" "last generated = newline"
    unfolding bytes_def using that by (rule lines_of_framed)
  have counts: "count_list (lines_of bytes) ''[LLM_STREAM_START]'' = 1
      \<and> count_list (lines_of bytes) ''[LLM_STREAM_END]'' = 1"
    if "generated \<noteq> []" "last generated = newline"
      "''[LLM_STREAM_START]'' \<notin> set (lines_of generated)"
      "''[LLM_STREAM_END]'' \<notin> set (lines_of generated)"
    using that by (simp add: framed count_list_0_iff)
  show ?thesis
    unfolding ops_def [symmetric] generated_def [symmetric] Let_def
    using out sb framed counts
    by (auto simp: bytes_def stream_bytes_def)
qed

text \<open>
  The property on an engine that writes \<open>Hi!\<close> and a newline, and on one that writes
  nothing.
\<close>

theorem chat_stream_bytes_witness:
  "(\<exists>w'. handleChatRequest newline_env example_chat LlmStdioCore_init = Inr w'
      \<and> max_new_tokens_of example_chat = Inr 128
      \<and> sink_bytes (response newline_env [] (chat_messages LlmStdioCore_init example_chat) 128)
          = ''Hi!'' @ [newline]
      \<and> std_cout w' = start_marker @ [WriteBytes ''Hi!'', Flush, WriteBytes [newline], Flush]
                         @ [Flush] @ end_marker
      \<and> stream_bytes (std_cout w') =
          ''[LLM_STREAM_START]'' @ [newline] @ ''Hi!'' @ [newline] @ ''[LLM_STREAM_END]'' @ [newline]
      \<and> lines_of (stream_bytes (std_cout w')) = [''[LLM_STREAM_START]'', ''Hi!'', ''[LLM_STREAM_END]'']
      \<and> count_list (lines_of (stream_bytes (std_cout w'))) ''[LLM_STREAM_START]'' = 1
      \<and> count_list (lines_of (stream_bytes (std_cout w'))) ''[LLM_STREAM_END]'' = 1)
   \<and> (\<exists>w'. handleChatRequest silent_env example_chat LlmStdioCore_init = Inr w'
      \<and> sink_bytes (response silent_env [] (chat_messages LlmStdioCore_init example_chat) 128) = []
      \<and> std_cout w' = [Flush]
      \<and> stream_bytes (std_cout w') = [])"
proof -
  have b: "max_new_tokens_of example_chat = Inr 128"
    by (simp add: example_chat_def override_eval)
  obtain w1 where w1: "handleChatRequest newline_env example_chat LlmStdioCore_init = Inr w1"
    using handleChatRequest_returns [OF b] by blast
  obtain w2 where w2: "handleChatRequest silent_env example_chat LlmStdioCore_init = Inr w2"
    using handleChatRequest_returns [OF b] by blast
  have g1: "sink_bytes (response newline_env [] (chat_messages LlmStdioCore_init example_chat) 128)
              = ''Hi!'' @ [newline]"
    by (simp add: newline_env_def sink_bytes_def)
  have g2: "sink_bytes (response silent_env [] (chat_messages LlmStdioCore_init example_chat) 128) = []"
    by (simp add: silent_env_def sink_bytes_def)
  have c1: "content_ops (response newline_env [] (chat_messages LlmStdioCore_init example_chat) 128)
              = [WriteBytes ''Hi!'', Flush, WriteBytes [newline], Flush]"
    by (simp add: newline_env_def content_ops_def)
  have i: "m_llm LlmStdioCore_init = []" "std_cout LlmStdioCore_init = []"
    by (simp_all add: LlmStdioCore_init_def)
  have l: "lines_of (''Hi!'' @ [newline]) = [''Hi!'']" by (simp add: lines_of_def)
  from chat_stream_bytes [OF w1 b]
  have "\<exists>w'. handleChatRequest newline_env example_chat LlmStdioCore_init = Inr w'
      \<and> max_new_tokens_of example_chat = Inr 128
      \<and> sink_bytes (response newline_env [] (chat_messages LlmStdioCore_init example_chat) 128)
          = ''Hi!'' @ [newline]
      \<and> std_cout w' = start_marker @ [WriteBytes ''Hi!'', Flush, WriteBytes [newline], Flush]
                         @ [Flush] @ end_marker
      \<and> stream_bytes (std_cout w') =
          ''[LLM_STREAM_START]'' @ [newline] @ ''Hi!'' @ [newline] @ ''[LLM_STREAM_END]'' @ [newline]
      \<and> lines_of (stream_bytes (std_cout w')) = [''[LLM_STREAM_START]'', ''Hi!'', ''[LLM_STREAM_END]'']
      \<and> count_list (lines_of (stream_bytes (std_cout w'))) ''[LLM_STREAM_START]'' = 1
      \<and> count_list (lines_of (stream_bytes (std_cout w'))) ''[LLM_STREAM_END]'' = 1"
    using w1 b by (intro exI [of _ w1]) (simp add: Let_def i g1 c1 l stream_bytes_def lines_of_def)
  moreover from chat_stream_bytes [OF w2 b]
  have "\<exists>w'. handleChatRequest silent_env example_chat LlmStdioCore_init = Inr w'
      \<and> sink_bytes (response silent_env [] (chat_messages LlmStdioCore_init example_chat) 128) = []
      \<and> std_cout w' = [Flush]
      \<and> stream_bytes (std_cout w') = []"
    using w2 by (intro exI [of _ w2]) (simp add: Let_def i g2 stream_bytes_def)
  ultimately show ?thesis by (rule conjI)
qed

text \<open>
  Claim C3 in the wording of the specification does not hold. With the engine that
  writes \<open>Hi!\<close> the lines on the primary channel are the start marker and
  \<^verbatim>\<open>Hi![LLM_STREAM_END]\<close>: no line is the end marker. With the engine that writes the
  text of the end marker and a newline, two lines are the end marker.
\<close>

theorem chat_stream_marker_lines_counterexample:
  "sink_bytes (response example_env [] (chat_messages LlmStdioCore_init example_chat) 128) = ''Hi!''
   \<and> map_sum id stdout_lines (handleChatRequest example_env example_chat LlmStdioCore_init)
       = Inr [''[LLM_STREAM_START]'', ''Hi![LLM_STREAM_END]'']
   \<and> map_sum id (marker_lines ''[LLM_STREAM_END]'')
         (handleChatRequest example_env example_chat LlmStdioCore_init) = Inr 0
   \<and> sink_bytes (response marker_env [] (chat_messages LlmStdioCore_init example_chat) 128)
       = ''[LLM_STREAM_END]'' @ [newline]
   \<and> map_sum id stdout_lines (handleChatRequest marker_env example_chat LlmStdioCore_init)
       = Inr [''[LLM_STREAM_START]'', ''[LLM_STREAM_END]'', ''[LLM_STREAM_END]'']
   \<and> map_sum id (marker_lines ''[LLM_STREAM_END]'')
         (handleChatRequest marker_env example_chat LlmStdioCore_init) = Inr 2"
proof -
  have b: "max_new_tokens_of example_chat = Inr 128"
    by (simp add: example_chat_def override_eval)
  show ?thesis
    by (simp add: handleChatRequest_returns [OF b] example_env_def marker_env_def sink_bytes_def
        content_ops_def stream_bytes_def stdout_lines_def marker_lines_def lines_of_def
        LlmStdioCore_init_def)
qed

text \<open>
  Claim C10. After a completed chat handler invocation, with \<open>generated\<close> the bytes the
  engine wrote to its sink: the capture buffer holds \<open>generated\<close>; the history has grown
  by the user entry and an assistant entry whose content is \<open>generated\<close>; the bytes
  added to the primary channel are \<open>generated\<close> between the two marker lines (nothing
  when \<open>generated\<close> is empty); and the handler has written two diagnostics, the second
  built with \<open>generated\<close> as its response argument.
\<close>

theorem chat_response_capture:
  assumes "handleChatRequest E req w = Inr w'" and "max_new_tokens_of req = Inr n"
  shows "let ops = response E (m_llm w) (chat_messages w req) n;
             generated = sink_bytes ops
         in snd (fold tee_stream_put ops (\<lparr>out = std_cout w, started = False\<rparr>, [])) = generated
          \<and> m_chat_history w' =
              m_chat_history w @ [(''user'', content req), (''assistant'', generated)]
          \<and> stream_bytes (drop (length (std_cout w)) (std_cout w')) =
              (if generated = [] then []
               else ''[LLM_STREAM_START]'' @ [CHR 0x0A] @ generated @ ''[LLM_STREAM_END]'' @ [CHR 0x0A])
          \<and> std_cerr w' = std_cerr w @
              [Insert (createStderrMessage (system_clock_now E (clock_reads w))
                         ''status'' ''success'' msg_stream_done [] []), Endl,
               Insert (createStderrMessage (system_clock_now E (Suc (clock_reads w)))
                         ''response'' ''success'' msg_response_done generated []), Endl,
               Flush]"
proof -
  define ops where "ops = response E (m_llm w) (chat_messages w req) n"
  have sb: "stream_bytes (start_marker @ content_ops ops @ [Flush] @ end_marker) =
      ''[LLM_STREAM_START]'' @ [CHR 0x0A] @ sink_bytes ops @ ''[LLM_STREAM_END]'' @ [CHR 0x0A]"
    unfolding stream_bytes_append stream_bytes_content_ops by (simp add: stream_bytes_def)
  from assms have "w' = w\<lparr>m_processing := False,
            m_chat_history := m_chat_history w @ [(''user'', content req), (''assistant'', sink_bytes ops)],
            m_llm := m_llm w @ [Response (chat_messages w req) n],
            std_cout := std_cout w @
              (if sink_bytes ops = [] then [Flush]
               else start_marker @ content_ops ops @ [Flush] @ end_marker),
            std_cerr := std_cerr w @
              [Insert (createStderrMessage (system_clock_now E (clock_reads w))
                         ''status'' ''success'' msg_stream_done [] []), Endl,
               Insert (createStderrMessage (system_clock_now E (Suc (clock_reads w)))
                         ''response'' ''success'' msg_response_done (sink_bytes ops) []), Endl,
               Flush],
            clock_reads := Suc (Suc (clock_reads w))\<rparr>"
    unfolding ops_def by (simp add: handleChatRequest_returns)
  with sb show ?thesis
    unfolding ops_def [symmetric] Let_def
    by (simp add: fold_tee_stream_put) (simp add: stream_bytes_def)
qed

text \<open>The property on the engine that writes \<open>Hi!\<close>.\<close>

theorem chat_response_capture_witness:
  "\<exists>w'. handleChatRequest example_env example_chat LlmStdioCore_init = Inr w'
      \<and> max_new_tokens_of example_chat = Inr 128
      \<and> m_chat_history w' = [(''user'', ''hello''), (''assistant'', ''Hi!'')]
      \<and> stream_bytes (std_cout w') =
          ''[LLM_STREAM_START]'' @ [CHR 0x0A] @ ''Hi!'' @ ''[LLM_STREAM_END]'' @ [CHR 0x0A]
      \<and> std_cerr w' =
          [Insert (createStderrMessage 1700000000000 ''status'' ''success'' msg_stream_done [] []), Endl,
           Insert (createStderrMessage 1700000000001 ''response'' ''success'' msg_response_done ''Hi!'' []),
           Endl, Flush]"
proof -
  have b: "max_new_tokens_of example_chat = Inr 128"
    by (simp add: example_chat_def override_eval)
  obtain w1 where w1: "handleChatRequest example_env example_chat LlmStdioCore_init = Inr w1"
    using handleChatRequest_returns [OF b] by blast
  have g1: "sink_bytes (response example_env [] (chat_messages LlmStdioCore_init example_chat) 128) = ''Hi!''"
    by (simp add: example_env_def sink_bytes_def)
  have i: "m_llm LlmStdioCore_init = []" "std_cout LlmStdioCore_init = []"
    "std_cerr LlmStdioCore_init = []" "m_chat_history LlmStdioCore_init = []"
    "clock_reads LlmStdioCore_init = 0"
    by (simp_all add: LlmStdioCore_init_def)
  have c: "content example_chat = ''hello''" by (simp add: example_chat_def)
  have t: "system_clock_now example_env 0 = 1700000000000"
    "system_clock_now example_env (Suc 0) = 1700000000001"
    by (simp_all add: example_env_def)
  from chat_response_capture [OF w1 b] show ?thesis
    using w1 b by (intro exI [of _ w1]) (simp add: Let_def i g1 c t stream_bytes_def)
qed

section \<open>Properties of the session state\<close>

text \<open>
  Claim C4. A completed chat handler invocation appends exactly a user entry and an
  assistant entry to the history; reset empties it; the status handler, the system
  prompt handler and the report of an unknown method leave it as it is. Hence the length
  of the history is even in the state the service loop returns for any input whenever it
  was even at the start, in particular from the initial state. The input is arbitrary, so
  this covers the state after each handler invocation: it is the state returned for the
  input cut off behind that line.
\<close>

theorem chat_history_even:
  "(handleChatRequest E req w = Inr w1 \<longrightarrow>
      (\<exists>r. m_chat_history w1 = m_chat_history w @ [(''user'', content req), (''assistant'', r)])
      \<and> length (m_chat_history w1) = length (m_chat_history w) + 2)
   \<and> m_chat_history (handleResetRequest E req w) = []
   \<and> m_chat_history (handleStatusRequest E req w) = m_chat_history w
   \<and> m_chat_history (handleSystemPromptRequest E req w) = m_chat_history w
   \<and> m_chat_history (cerr_flush (cerr_message E ''error'' ''error''
        (msg_unknown_type @ req_method req) [] w)) = m_chat_history w
   \<and> (run_loop E stdin w = Inr w2 \<and> even (length (m_chat_history w)) \<longrightarrow>
        even (length (m_chat_history w2)))
   \<and> (run E stdin LlmStdioCore_init = Inr w3 \<longrightarrow> even (length (m_chat_history w3)))"
proof -
  have "even (length (m_chat_history w3))" if "run E stdin LlmStdioCore_init = Inr w3"
    using that unfolding run_def
    by (rule run_loop_history_even) (simp add: LlmStdioCore_init_def)
  moreover have "length (m_chat_history w1) = length (m_chat_history w) + 2"
    if "handleChatRequest E req w = Inr w1"
    using handleChatRequest_history [OF that] by auto
  ultimately show ?thesis
    by (auto simp: handleResetRequest_eq handleStatusRequest_history
        handleSystemPromptRequest_history cerr_message_def cerr_flush_def
        dest: handleChatRequest_history run_loop_history_even)
qed

text \<open>The property on a chat request, a reset and two runs of the service loop.\<close>

theorem chat_history_even_witness:
  \<open>(\<exists>w1. handleChatRequest example_env example_chat LlmStdioCore_init = Inr w1
       \<and> length (m_chat_history w1) = 2)
   \<and> m_chat_history (handleResetRequest example_env example_reset LlmStdioCore_init) = []
   \<and> (\<exists>w2. run_loop example_env [''{"type":"chat","prompt":"hi"}'']
              (LlmStdioCore_init\<lparr>m_running := True\<rparr>) = Inr w2
       \<and> even (length (m_chat_history LlmStdioCore_init))
       \<and> even (length (m_chat_history w2)))
   \<and> (\<exists>w3. run example_env [''{"type":"chat","prompt":"hi"}'', ''{"type":"status"}'']
              LlmStdioCore_init = Inr w3
       \<and> even (length (m_chat_history w3)))\<close>
proof -
  have b: "max_new_tokens_of example_chat = Inr 128"
    by (simp add: example_chat_def override_eval)
  obtain w1 where w1: "handleChatRequest example_env example_chat LlmStdioCore_init = Inr w1"
    using handleChatRequest_returns [OF b] by blast
  have \<open>\<exists>w. run_loop example_env [''{"type":"chat","prompt":"hi"}'']
              (LlmStdioCore_init\<lparr>m_running := True\<rparr>) = Inr w\<close>
    by (simp add: decoder_eval override_eval handleChatRequest_def Let_def init_fields)
  then obtain w2 where w2: \<open>run_loop example_env [''{"type":"chat","prompt":"hi"}'']
              (LlmStdioCore_init\<lparr>m_running := True\<rparr>) = Inr w2\<close>
    by blast
  have \<open>\<exists>w. run example_env [''{"type":"chat","prompt":"hi"}'', ''{"type":"status"}'']
              LlmStdioCore_init = Inr w\<close>
    by (simp add: run_def decoder_eval override_eval handleChatRequest_def Let_def init_fields
        cerr_message_def cerr_flush_def)
  then obtain w3 where w3: \<open>run example_env [''{"type":"chat","prompt":"hi"}'', ''{"type":"status"}'']
              LlmStdioCore_init = Inr w3\<close>
    by blast
  have e: "even (length (m_chat_history LlmStdioCore_init))" by (simp add: init_fields)
  have i: "m_chat_history LlmStdioCore_init = []" by (simp add: init_fields)
  note t = chat_history_even [of example_env example_chat LlmStdioCore_init w1]
  note t2 = chat_history_even [of example_env example_reset "LlmStdioCore_init" _
      \<open>[''{"type":"chat","prompt":"hi"}'']\<close> w2]
  note t4 = chat_history_even [of example_env example_reset "LlmStdioCore_init\<lparr>m_running := True\<rparr>" _
      \<open>[''{"type":"chat","prompt":"hi"}'']\<close> w2]
  note t3 = chat_history_even [of example_env example_reset LlmStdioCore_init _
      \<open>[''{"type":"chat","prompt":"hi"}'', ''{"type":"status"}'']\<close> _ w3]
  have A: "\<exists>w1. handleChatRequest example_env example_chat LlmStdioCore_init = Inr w1
       \<and> length (m_chat_history w1) = 2"
    using t w1 i by (intro exI [of _ w1]) simp
  have B: "m_chat_history (handleResetRequest example_env example_reset LlmStdioCore_init) = []"
    using t2 by simp
  have C: \<open>\<exists>w2. run_loop example_env [''{"type":"chat","prompt":"hi"}'']
              (LlmStdioCore_init\<lparr>m_running := True\<rparr>) = Inr w2
       \<and> even (length (m_chat_history LlmStdioCore_init))
       \<and> even (length (m_chat_history w2))\<close>
    using t4 w2 e by (intro exI [of _ w2]) (simp add: i)
  have D: \<open>\<exists>w3. run example_env [''{"type":"chat","prompt":"hi"}'', ''{"type":"status"}'']
              LlmStdioCore_init = Inr w3
       \<and> even (length (m_chat_history w3))\<close>
    using t3 w3 by (intro exI [of _ w3]) simp
  from A B C D show ?thesis by (intro conjI)
qed

text \<open>
  Claim C5. In every state the reset handler empties the history, calls the engine's
  \<^verbatim>\<open>reset\<close>, writes one diagnostic of type \<open>message\<close> with status \<open>success\<close> and
  changes nothing else of the session: the system prompt, the running flag and the
  processing flag stay, and nothing is written to \<^verbatim>\<open>std::cout\<close>. A chat request handled
  next, with a system prompt set, hands the engine the system prompt as the first
  message, followed by the new user message only.
\<close>

theorem reset_keeps_system_prompt:
  "handleResetRequest E req w =
     w\<lparr>m_chat_history := [], m_llm := m_llm w @ [Reset],
       std_cerr := std_cerr w @
         [Insert (createStderrMessage (system_clock_now E (clock_reads w))
                    ''message'' ''success'' msg_reset_done [] []), Endl, Flush],
       clock_reads := Suc (clock_reads w)\<rparr>
   \<and> m_chat_history (handleResetRequest E req w) = []
   \<and> m_system_prompt (handleResetRequest E req w) = m_system_prompt w
   \<and> m_running (handleResetRequest E req w) = m_running w
   \<and> m_processing (handleResetRequest E req w) = m_processing w
   \<and> std_cout (handleResetRequest E req w) = std_cout w
   \<and> (m_system_prompt w \<noteq> [] \<and> max_new_tokens_of req' = Inr n \<longrightarrow>
        chat_messages (handleResetRequest E req w) req' =
          [(''system'', m_system_prompt w), (''user'', content req')]
        \<and> (\<exists>w'. handleChatRequest E req' (handleResetRequest E req w) = Inr w'
               \<and> m_llm w' = m_llm w @
                   [Reset, Response [(''system'', m_system_prompt w), (''user'', content req')] n]))"
  by (simp add: handleResetRequest_eq handleChatRequest_returns chat_messages_def)

text \<open>The property on the sequence: set the system prompt \<open>X\<close>, chat, reset, chat.\<close>

theorem reset_keeps_system_prompt_witness:
  "\<exists>w1 w3. handleChatRequest example_env example_chat
              (handleSystemPromptRequest example_env example_system_prompt LlmStdioCore_init) = Inr w1
     \<and> length (m_chat_history w1) = 2
     \<and> m_system_prompt w1 = ''X''
     \<and> max_new_tokens_of example_chat = Inr 128
     \<and> m_chat_history (handleResetRequest example_env example_reset w1) = []
     \<and> m_system_prompt (handleResetRequest example_env example_reset w1) = ''X''
     \<and> handleChatRequest example_env example_chat (handleResetRequest example_env example_reset w1) = Inr w3
     \<and> m_llm w3 = m_llm w1 @ [Reset, Response [(''system'', ''X''), (''user'', ''hello'')] 128]"
proof -
  have b: "max_new_tokens_of example_chat = Inr 128"
    by (simp add: example_chat_def override_eval)
  define w0 where "w0 = handleSystemPromptRequest example_env example_system_prompt LlmStdioCore_init"
  have w0: "m_system_prompt w0 = ''X''" "m_chat_history w0 = []"
    by (simp_all add: w0_def handleSystemPromptRequest_def example_system_prompt_def
        cerr_message_def cerr_flush_def init_fields)
  obtain w1 where w1: "handleChatRequest example_env example_chat w0 = Inr w1"
    using handleChatRequest_returns [OF b] by blast
  with b w0 have h1: "length (m_chat_history w1) = 2" "m_system_prompt w1 = ''X''"
    by (auto simp: handleChatRequest_returns)
  have c: "content example_chat = ''hello''" by (simp add: example_chat_def)
  from reset_keeps_system_prompt [of example_env example_reset w1 example_chat 128] h1 b c
  obtain w3 where "m_chat_history (handleResetRequest example_env example_reset w1) = []"
    "m_system_prompt (handleResetRequest example_env example_reset w1) = ''X''"
    "handleChatRequest example_env example_chat (handleResetRequest example_env example_reset w1) = Inr w3"
    "m_llm w3 = m_llm w1 @ [Reset, Response [(''system'', ''X''), (''user'', ''hello'')] 128]"
    by auto
  with w1 h1 b show ?thesis unfolding w0_def by blast
qed

text \<open>
  Claim C8. With empty content the system prompt handler writes one diagnostic of type
  \<open>error\<close> with status \<open>error\<close> and leaves the session as it is, the stored system
  prompt included. With content that is not empty it stores the content as the system
  prompt and writes one diagnostic of type \<open>message\<close> with status \<open>success\<close>.
\<close>

theorem system_prompt_handler:
  "(content req = [] \<longrightarrow>
      handleSystemPromptRequest E req w =
        w\<lparr>std_cerr := std_cerr w @
            [Insert (createStderrMessage (system_clock_now E (clock_reads w))
                       ''error'' ''error'' msg_system_prompt_empty [] []), Endl, Flush],
          clock_reads := Suc (clock_reads w)\<rparr>
      \<and> m_system_prompt (handleSystemPromptRequest E req w) = m_system_prompt w)
   \<and> (content req \<noteq> [] \<longrightarrow>
      handleSystemPromptRequest E req w =
        w\<lparr>m_system_prompt := content req,
          std_cerr := std_cerr w @
            [Insert (createStderrMessage (system_clock_now E (clock_reads w))
                       ''message'' ''success'' msg_system_prompt_set [] []), Endl, Flush],
          clock_reads := Suc (clock_reads w)\<rparr>
      \<and> m_system_prompt (handleSystemPromptRequest E req w) = content req)"
  by (simp add: handleSystemPromptRequest_def cerr_message_def cerr_flush_def)

text \<open>The property on a request without content and on one with content \<open>X\<close>.\<close>

theorem system_prompt_handler_witness:
  "content example_reset = []
   \<and> handleSystemPromptRequest example_env example_reset
        (LlmStdioCore_init\<lparr>m_system_prompt := ''kept''\<rparr>) =
      LlmStdioCore_init\<lparr>m_system_prompt := ''kept'',
        std_cerr := [Insert (createStderrMessage 1700000000000
                       ''error'' ''error'' msg_system_prompt_empty [] []), Endl, Flush],
        clock_reads := Suc 0\<rparr>
   \<and> content example_system_prompt \<noteq> []
   \<and> handleSystemPromptRequest example_env example_system_prompt
        (LlmStdioCore_init\<lparr>m_system_prompt := ''kept''\<rparr>) =
      LlmStdioCore_init\<lparr>m_system_prompt := ''X'',
        std_cerr := [Insert (createStderrMessage 1700000000000
                       ''message'' ''success'' msg_system_prompt_set [] []), Endl, Flush],
        clock_reads := Suc 0\<rparr>"
  using system_prompt_handler [of example_reset example_env "LlmStdioCore_init\<lparr>m_system_prompt := ''kept''\<rparr>"]
    system_prompt_handler [of example_system_prompt example_env "LlmStdioCore_init\<lparr>m_system_prompt := ''kept''\<rparr>"]
  by (simp add: example_reset_def example_system_prompt_def example_env_def init_fields)

section \<open>Properties of the service loop\<close>

text \<open>
  Claim C9. For every input line \<^verbatim>\<open>parseRequest\<close> returns a request: no read and no
  substring of the decoder can fail, and a field whose quoted key does not occur in the
  line is the empty string. Whenever the service loop decodes a line (the loop is running
  and the line is not empty) and the method is neither \<open>chat\<close>, \<open>status\<close>,
  \<open>system_prompt\<close>, \<open>reset\<close> nor \<open>exit\<close>, the loop writes one diagnostic of type
  \<open>error\<close> with status \<open>error\<close> whose message ends with the method, changes nothing
  of the session, and goes on with the remaining lines.
\<close>

theorem unknown_method_reported:
  "(\<exists>req. parseRequest line = Inr req)
   \<and> (find_str line ([dquote] @ key @ [dquote]) 0 = None \<longrightarrow> extractValue line key = Inr [])
   \<and> (m_running w \<and> line \<noteq> [] \<and> parseRequest line = Inr req
        \<and> req_method req \<noteq> ''chat'' \<and> req_method req \<noteq> ''status''
        \<and> req_method req \<noteq> ''system_prompt'' \<and> req_method req \<noteq> ''reset''
        \<and> req_method req \<noteq> ''exit'' \<longrightarrow>
      run_loop E (line # rest) w =
        run_loop E rest
          (w\<lparr>std_cerr := std_cerr w @
               [Insert (createStderrMessage (system_clock_now E (clock_reads w))
                          ''error'' ''error'' (msg_unknown_type @ req_method req) [] []),
                Endl, Flush],
             clock_reads := Suc (clock_reads w)\<rparr>))"
  by (simp add: parseRequest_Inr extractValue_def cerr_message_flush)

text \<open>The property on the line \<open>garbage\<close>, whose method is empty, followed by a reset request.\<close>

theorem unknown_method_reported_witness:
  \<open>(\<exists>req. parseRequest ''garbage'' = Inr req \<and> req_method req = [])
   \<and> find_str ''garbage'' ([dquote] @ ''type'' @ [dquote]) 0 = None
   \<and> extractValue ''garbage'' ''type'' = Inr []
   \<and> run_loop example_env [''garbage'', ''{"type":"reset"}''] (LlmStdioCore_init\<lparr>m_running := True\<rparr>) =
     run_loop example_env [''{"type":"reset"}'']
       (LlmStdioCore_init\<lparr>m_running := True,
          std_cerr := [Insert (createStderrMessage 1700000000000 ''error'' ''error''
                                 (msg_unknown_type @ []) [] []), Endl, Flush],
          clock_reads := Suc 0\<rparr>)
   \<and> (\<exists>w'. run_loop example_env [''garbage'', ''{"type":"reset"}'']
              (LlmStdioCore_init\<lparr>m_running := True\<rparr>) = Inr w'
        \<and> m_llm w' = [Reset] \<and> length (std_cerr w') = 6)\<close>
proof -
  have p: "parseRequest ''garbage'' = Inr \<lparr>req_id = [], req_method = [], content = [], params = Map.empty\<rparr>"
    by (simp add: decoder_eval)
  have f: "find_str ''garbage'' ([dquote] @ ''type'' @ [dquote]) 0 = None"
    by (simp add: find_str_def)
  note t = unknown_method_reported [of "''garbage''" "''type''" "LlmStdioCore_init\<lparr>m_running := True\<rparr>"
      "\<lparr>req_id = [], req_method = [], content = [], params = Map.empty\<rparr>" example_env
      \<open>[''{"type":"reset"}'']\<close>]
  have r: \<open>run_loop example_env [''garbage'', ''{"type":"reset"}''] (LlmStdioCore_init\<lparr>m_running := True\<rparr>) =
     run_loop example_env [''{"type":"reset"}'']
       (LlmStdioCore_init\<lparr>m_running := True,
          std_cerr := [Insert (createStderrMessage 1700000000000 ''error'' ''error''
                                 (msg_unknown_type @ []) [] []), Endl, Flush],
          clock_reads := Suc 0\<rparr>)\<close>
    using t p by (simp add: init_fields example_env_def)
  have e: \<open>\<exists>w'. run_loop example_env [''{"type":"reset"}'']
       (LlmStdioCore_init\<lparr>m_running := True,
          std_cerr := [Insert (createStderrMessage 1700000000000 ''error'' ''error''
                                 (msg_unknown_type @ []) [] []), Endl, Flush],
          clock_reads := Suc 0\<rparr>) = Inr w' \<and> m_llm w' = [Reset] \<and> length (std_cerr w') = 6\<close>
    by (simp add: decoder_eval handleResetRequest_eq init_fields)
  from t p f r e show ?thesis by simp
qed

end
